theory Spec2Isabelle
  imports Complex_Main "HOL-Library.Word"
begin

unbundle bit_operations_syntax

section \<open>The T.30 engine of spandsp (src/t30.c): data model\<close>

text \<open>
  Octets are 8-bit words. The C \<^verbatim>\<open>int\<close> fields of the session are modelled as
  unbounded integers: none of the properties below depends on 32-bit wrap-around, and
  every conversion to \<^verbatim>\<open>uint8_t\<close> is written out with \<open>word_of_int\<close>.
\<close>

type_synonym u8 = "8 word"

text \<open>The phases and states of the two anonymous enums at the head of t30.c.\<close>

datatype t30_phase =
    T30_PHASE_IDLE
  | T30_PHASE_A_CED
  | T30_PHASE_A_CNG
  | T30_PHASE_B_RX
  | T30_PHASE_B_TX
  | T30_PHASE_C_NON_ECM_RX
  | T30_PHASE_C_NON_ECM_TX
  | T30_PHASE_C_ECM_RX
  | T30_PHASE_C_ECM_TX
  | T30_PHASE_D_RX
  | T30_PHASE_D_TX
  | T30_PHASE_E
  | T30_PHASE_CALL_FINISHED

datatype t30_state_id =
    T30_STATE_ANSWERING
  | T30_STATE_B
  | T30_STATE_C
  | T30_STATE_D
  | T30_STATE_D_TCF
  | T30_STATE_D_POST_TCF
  | T30_STATE_F_TCF
  | T30_STATE_F_CFR
  | T30_STATE_F_FTT
  | T30_STATE_F_DOC_NON_ECM
  | T30_STATE_F_POST_DOC_NON_ECM
  | T30_STATE_F_DOC_ECM
  | T30_STATE_F_POST_DOC_ECM
  | T30_STATE_F_POST_RCP_MCF
  | T30_STATE_F_POST_RCP_PPR
  | T30_STATE_F_POST_RCP_RNR
  | T30_STATE_R
  | T30_STATE_T
  | T30_STATE_I
  | T30_STATE_II
  | T30_STATE_II_Q
  | T30_STATE_III_Q_MCF
  | T30_STATE_III_Q_RTP
  | T30_STATE_III_Q_RTN
  | T30_STATE_IV
  | T30_STATE_IV_PPS_NULL
  | T30_STATE_IV_PPS_Q
  | T30_STATE_IV_PPS_RNR
  | T30_STATE_IV_CTC
  | T30_STATE_IV_EOR
  | T30_STATE_IV_EOR_RNR
  | T30_STATE_CALL_FINISHED

text \<open>
  The completion codes (\<^verbatim>\<open>T30_ERR_*\<close>) and modem kinds (\<^verbatim>\<open>T30_MODEM_*\<close>) are enums of
  spandsp/t30.h, which is not among the sources; only the members that the modelled
  functions name are listed. Their numeric values are never used by the code below.
\<close>

datatype t30_err =
    T30_ERR_OK
  | T30_ERR_T0_EXPIRED
  | T30_ERR_T1_EXPIRED
  | T30_ERR_T3_EXPIRED
  | T30_ERR_T5_EXPIRED
  | T30_ERR_NOCARRIERRX
  | T30_ERR_INVALCMDRX
  | T30_ERR_UNEXPECTED
  | T30_ERR_PHBDEADTX
  | T30_ERR_PHDDEADTX
  | T30_ERR_RETRYDCN
  | T30_ERR_CALLDROPPED
  | T30_ERR_OTHER

datatype t30_modem =
    T30_MODEM_NONE
  | T30_MODEM_PAUSE
  | T30_MODEM_CED
  | T30_MODEM_CNG
  | T30_MODEM_V21
  | T30_MODEM_V27TER_2400
  | T30_MODEM_V27TER_4800
  | T30_MODEM_V29_7200
  | T30_MODEM_V29_9600
  | T30_MODEM_V17_7200
  | T30_MODEM_V17_9600
  | T30_MODEM_V17_12000
  | T30_MODEM_V17_14400
  | T30_MODEM_DONE

datatype t30_support = T30_SUPPORT_NONE | T30_SUPPORT_V27TER | T30_SUPPORT_V29 | T30_SUPPORT_V17

text \<open>
  The capability masks of the session (\<^verbatim>\<open>iaf\<close>, \<^verbatim>\<open>supported_modems\<close>,
  \<^verbatim>\<open>supported_compressions\<close>, \<^verbatim>\<open>supported_resolutions\<close>, \<^verbatim>\<open>supported_image_sizes\<close>,
  \<^verbatim>\<open>supported_polling_features\<close>) are integers that the code tests against flags of
  spandsp/t30.h. The values of the flags are not among the sources: a mask is modelled as
  the list of the flags set in it, and the test \<^verbatim>\<open>mask & FLAG\<close> as membership.
\<close>

datatype t30_flag =
    T30_IAF_MODE_T37
  | T30_IAF_MODE_T38
  | T30_IAF_MODE_FLOW_CONTROL
  | T30_IAF_MODE_CONTINUOUS_FLOW
  | T30_SUPPORT_T4_1D_COMPRESSION
  | T30_SUPPORT_T4_2D_COMPRESSION
  | T30_SUPPORT_NO_COMPRESSION
  | T30_SUPPORT_T6_COMPRESSION
  | T30_SUPPORT_T43_COMPRESSION
  | T30_SUPPORT_T85_COMPRESSION
  | T30_SUPPORT_T45_COMPRESSION
  | T30_SUPPORT_STANDARD_RESOLUTION
  | T30_SUPPORT_FINE_RESOLUTION
  | T30_SUPPORT_SUPERFINE_RESOLUTION
  | T30_SUPPORT_R8_RESOLUTION
  | T30_SUPPORT_R16_RESOLUTION
  | T30_SUPPORT_300_300_RESOLUTION
  | T30_SUPPORT_400_400_RESOLUTION
  | T30_SUPPORT_600_600_RESOLUTION
  | T30_SUPPORT_1200_1200_RESOLUTION
  | T30_SUPPORT_300_600_RESOLUTION
  | T30_SUPPORT_400_800_RESOLUTION
  | T30_SUPPORT_600_1200_RESOLUTION
  | T30_SUPPORT_215MM_WIDTH
  | T30_SUPPORT_255MM_WIDTH
  | T30_SUPPORT_303MM_WIDTH
  | T30_SUPPORT_US_LETTER_LENGTH
  | T30_SUPPORT_US_LEGAL_LENGTH
  | T30_SUPPORT_UNLIMITED_LENGTH
  | T30_SUPPORT_B4_LENGTH
  | T30_SUPPORT_SEP
  | T30_SUPPORT_PSA

text \<open>
  The frame-type codes of spandsp/t30_fcf.h. The header is not among the sources, so the
  codes are a parameter of every function that names one.
\<close>

record t30_fcf =
  T30_DIS :: u8
  T30_CSI :: u8
  T30_NSF :: u8
  T30_DCS :: u8
  T30_TSI :: u8
  T30_SUB :: u8
  T30_PWD :: u8
  T30_CFR :: u8
  T30_FTT :: u8
  T30_EOM :: u8
  T30_MPS :: u8
  T30_EOP :: u8
  T30_PRI_EOM :: u8
  T30_PRI_MPS :: u8
  T30_PRI_EOP :: u8
  T30_PPS :: u8
  T30_MCF :: u8
  T30_RTP :: u8
  T30_RTN :: u8
  T30_PPR :: u8
  T30_RNR :: u8
  T30_RR :: u8
  T30_DCN :: u8
  T30_CTC :: u8
  T30_CRP :: u8
  T30_NULL :: u8
  T4_FCD :: u8
  T4_RCP :: u8

text \<open>
  The codes that ITU-T T.30 assigns to these frames; used only to evaluate the model on
  concrete sessions.
\<close>

definition fcf_T30 :: t30_fcf where
  "fcf_T30 = \<lparr> T30_DIS = 0x80, T30_CSI = 0x40, T30_NSF = 0x20, T30_DCS = 0x82,
     T30_TSI = 0x42, T30_SUB = 0xC2, T30_PWD = 0xC1, T30_CFR = 0x84, T30_FTT = 0x44,
     T30_EOM = 0x8E, T30_MPS = 0x4E, T30_EOP = 0x2E, T30_PRI_EOM = 0x9E,
     T30_PRI_MPS = 0x5E, T30_PRI_EOP = 0x3E, T30_PPS = 0xBE, T30_MCF = 0x8C,
     T30_RTP = 0xCC, T30_RTN = 0x4C, T30_PPR = 0xBC, T30_RNR = 0xEC, T30_RR = 0x6E,
     T30_DCN = 0xFA, T30_CTC = 0x12, T30_CRP = 0x1A, T30_NULL = 0x00,
     T4_FCD = 0x06, T4_RCP = 0x86 \<rparr>"

text \<open>
  The special conditions that a modem reports in place of a bit or of a frame length
  (\<^verbatim>\<open>PUTBIT_*\<close> of spandsp/async.h, not among the sources): negative integers, a
  parameter like the frame-type codes. \<open>putbit_ok\<close> says what C guarantees of the
  labels of one \<^verbatim>\<open>switch\<close>: they are distinct; and what the callers test: they are
  negative.
\<close>

record putbit =
  PUTBIT_TRAINING_FAILED :: int
  PUTBIT_TRAINING_SUCCEEDED :: int
  PUTBIT_CARRIER_UP :: int
  PUTBIT_CARRIER_DOWN :: int
  PUTBIT_FRAMING_OK :: int
  PUTBIT_ABORT :: int


definition putbit_std :: putbit where
  "putbit_std = \<lparr> PUTBIT_TRAINING_FAILED = - 5, PUTBIT_TRAINING_SUCCEEDED = - 4,
     PUTBIT_CARRIER_UP = - 2, PUTBIT_CARRIER_DOWN = - 1, PUTBIT_FRAMING_OK = - 6,
     PUTBIT_ABORT = - 8 \<rparr>"

text \<open>
  What the engine hands to its collaborators: frames to \<^verbatim>\<open>send_hdlc_handler\<close>, modem
  requests to \<^verbatim>\<open>set_rx_type_handler\<close> and \<^verbatim>\<open>set_tx_type_handler\<close>, and the
  phase D callback. The calls are recorded in order in the field \<open>events\<close>. A handler
  pointer is a flag: the call is made only when a handler is installed. The call
  \<^verbatim>\<open>send_hdlc_handler(user_data, NULL, 0)\<close>, which ends a sequence of frames, is
  recorded as \<open>Send_hdlc []\<close>. A handler is taken not to write to the session.
\<close>

datatype t30_event =
    Send_hdlc "u8 list"
  | Set_rx_type t30_modem int bool
  | Set_tx_type t30_modem int bool
  | Phase_d u8

text \<open>
  The image codec (spandsp/t4.h) is an external collaborator. Its state is an abstract
  component \<open>'t4\<close> of the session, and the calls that the modelled functions make are a
  parameter: the calls without a result are commands, the two receive calls return the
  codec's end-of-document indication.
\<close>

datatype t4_cmd =
    T4_rx_set_image_width int
  | T4_rx_set_sub_address "u8 list"
  | T4_rx_set_dcs "u8 list"
  | T4_rx_set_far_ident "u8 list"
  | T4_rx_set_vendor "u8 list"
  | T4_rx_set_model "u8 list"
  | T4_rx_set_rx_encoding int
  | T4_rx_set_x_resolution int
  | T4_rx_set_y_resolution int
  | T4_rx_start_page
  | T4_rx_end_page

record 't4 t4_ops =
  t4_call :: "t4_cmd \<Rightarrow> 't4 \<Rightarrow> 't4"
  t4_rx_put_chunk :: "'t4 \<Rightarrow> u8 list \<Rightarrow> int \<Rightarrow> bool \<times> 't4"
  t4_rx_put_bit :: "'t4 \<Rightarrow> int \<Rightarrow> bool \<times> 't4"

text \<open>The fields of \<^verbatim>\<open>t30_state_t\<close> that the modelled functions read or write.\<close>

record 't4 t30_state =
  phase :: t30_phase
  next_phase :: t30_phase
  state :: t30_state_id
  step :: int
  dis_received :: bool
  rx_signal_present :: bool
  rx_trained :: bool
  far_end_detected :: bool
  short_train :: bool
  in_message :: bool
  timer_t0_t1 :: int
  timer_t2_t4 :: int
  timer_is_t4 :: bool
  retries :: int
  current_status :: t30_err
  current_fallback :: nat
  training_current_zeros :: int
  training_most_zeros :: int
  training_test_bits :: int
  next_tx_step :: u8
  next_rx_step :: u8
  last_pps_fcf2 :: u8
  receiver_not_ready_count :: int
  ppr_count :: int
  ecm_len :: "int list"
  ecm_data :: "u8 list list"
  ecm_frame_map :: "u8 list"
  ecm_frames :: int
  ecm_first_bad_frame :: int
  ecm_page :: int
  ecm_block :: int
  ecm_frames_this_burst :: int
  ecm_current_frame :: int
  ecm_at_page_end :: bool
  dis_dtc_frame :: "u8 list"
  dis_dtc_len :: nat
  dcs_frame :: "u8 list"
  dcs_len :: nat
  local_nsf :: "u8 list"
  local_ident :: "u8 list"
  local_password :: "u8 list"
  local_sub_address :: "u8 list"
  rx_file :: "u8 list"
  tx_file :: "u8 list"
  image_width :: int
  line_encoding :: int
  x_resolution :: int
  y_resolution :: int
  far_ident :: "u8 list"
  far_sub_address :: "u8 list"
  rx_dcs_string :: "u8 list"
  vendor :: "u8 list"
  model :: "u8 list"
  calling_party :: bool
  iaf :: "t30_flag list"
  supported_modems :: "t30_support list"
  supported_compressions :: "t30_flag list"
  supported_resolutions :: "t30_flag list"
  supported_image_sizes :: "t30_flag list"
  supported_polling_features :: "t30_flag list"
  ecm_allowed :: bool
  support_fnv :: bool
  crp_enabled :: bool
  send_hdlc_handler :: bool
  set_rx_type_handler :: bool
  set_tx_type_handler :: bool
  phase_d_handler :: bool
  t4 :: 't4
  events :: "t30_event list"

subsection \<open>Constants and the fallback table\<close>

definition MAX_MESSAGE_TRIES :: int where
  "MAX_MESSAGE_TRIES = 3"

definition DEFAULT_TIMER_T1 :: int where "DEFAULT_TIMER_T1 = 35000"
definition DEFAULT_TIMER_T2 :: int where "DEFAULT_TIMER_T2 = 7000"
definition DEFAULT_TIMER_T4 :: int where "DEFAULT_TIMER_T4 = 3450"
definition FINAL_FLUSH_TIME :: int where "FINAL_FLUSH_TIME = 1000"

text \<open>
  Modelled from the spec: \<^verbatim>\<open>SAMPLE_RATE\<close> is defined in spandsp/telephony.h, which is not
  among the sources; the specification maps timers to samples at 8000 Hz.
\<close>

definition SAMPLE_RATE :: int where
  "SAMPLE_RATE = 8000"

definition ms_to_samples :: "int \<Rightarrow> int" where
  "ms_to_samples t = (t * SAMPLE_RATE) div 1000"

definition DISBIT1 :: u8 where "DISBIT1 = 0x01"
definition DISBIT2 :: u8 where "DISBIT2 = 0x02"
definition DISBIT3 :: u8 where "DISBIT3 = 0x04"
definition DISBIT4 :: u8 where "DISBIT4 = 0x08"
definition DISBIT5 :: u8 where "DISBIT5 = 0x10"
definition DISBIT6 :: u8 where "DISBIT6 = 0x20"
definition DISBIT7 :: u8 where "DISBIT7 = 0x40"
definition DISBIT8 :: u8 where "DISBIT8 = 0x80"

record fallback_entry =
  bit_rate :: int
  modem_type :: t30_modem
  which :: t30_support
  dcs_code :: u8

definition fallback_sequence :: "fallback_entry list" where
  "fallback_sequence =
   [\<lparr>bit_rate = 14400, modem_type = T30_MODEM_V17_14400, which = T30_SUPPORT_V17, dcs_code = DISBIT6\<rparr>,
    \<lparr>bit_rate = 12000, modem_type = T30_MODEM_V17_12000, which = T30_SUPPORT_V17, dcs_code = DISBIT6 OR DISBIT4\<rparr>,
    \<lparr>bit_rate = 9600, modem_type = T30_MODEM_V17_9600, which = T30_SUPPORT_V17, dcs_code = DISBIT6 OR DISBIT3\<rparr>,
    \<lparr>bit_rate = 9600, modem_type = T30_MODEM_V29_9600, which = T30_SUPPORT_V29, dcs_code = DISBIT3\<rparr>,
    \<lparr>bit_rate = 7200, modem_type = T30_MODEM_V17_7200, which = T30_SUPPORT_V17, dcs_code = DISBIT6 OR DISBIT4 OR DISBIT3\<rparr>,
    \<lparr>bit_rate = 7200, modem_type = T30_MODEM_V29_7200, which = T30_SUPPORT_V29, dcs_code = DISBIT4 OR DISBIT3\<rparr>,
    \<lparr>bit_rate = 4800, modem_type = T30_MODEM_V27TER_4800, which = T30_SUPPORT_V27TER, dcs_code = DISBIT4\<rparr>,
    \<lparr>bit_rate = 2400, modem_type = T30_MODEM_V27TER_2400, which = T30_SUPPORT_V27TER, dcs_code = 0\<rparr>,
    \<lparr>bit_rate = 0, modem_type = T30_MODEM_NONE, which = T30_SUPPORT_NONE, dcs_code = 0\<rparr>]"

subsection \<open>Frames, states and phases\<close>

definition dis_bit :: "'t4 t30_state \<Rightarrow> u8" where
  "dis_bit s = (if dis_received s then 1 else 0)"

definition c_bool :: "bool \<Rightarrow> int" where
  "c_bool b = (if b then 1 else 0)"

definition rx_type :: "t30_modem \<Rightarrow> int \<Rightarrow> bool \<Rightarrow> 't4 t30_state \<Rightarrow> 't4 t30_state" where
  "rx_type m st hdlc s =
     (if set_rx_type_handler s then s\<lparr>events := events s @ [Set_rx_type m st hdlc]\<rparr> else s)"

definition tx_type :: "t30_modem \<Rightarrow> int \<Rightarrow> bool \<Rightarrow> 't4 t30_state \<Rightarrow> 't4 t30_state" where
  "tx_type m st hdlc s =
     (if set_tx_type_handler s then s\<lparr>events := events s @ [Set_tx_type m st hdlc]\<rparr> else s)"

definition send_frame :: "'t4 t30_state \<Rightarrow> u8 list \<Rightarrow> 't4 t30_state" where
  "send_frame s fr =
     (if send_hdlc_handler s then s\<lparr>events := events s @ [Send_hdlc fr]\<rparr> else s)"

definition send_simple_frame :: "'t4 t30_state \<Rightarrow> u8 \<Rightarrow> 't4 t30_state" where
  "send_simple_frame s type = send_frame s [0xFF, 0x13, type OR dis_bit s]"

definition set_state :: "'t4 t30_state \<Rightarrow> t30_state_id \<Rightarrow> 't4 t30_state" where
  "set_state s st = (if state s \<noteq> st then s\<lparr>state := st\<rparr> else s)\<lparr>step := 0\<rparr>"

definition phase_modems :: "t30_phase \<Rightarrow> 't4 t30_state \<Rightarrow> 't4 t30_state" where
  "phase_modems p s =
    (case p of
       T30_PHASE_IDLE \<Rightarrow> s
     | T30_PHASE_A_CED \<Rightarrow>
         tx_type T30_MODEM_CED 0 False (rx_type T30_MODEM_V21 0 True s)
     | T30_PHASE_A_CNG \<Rightarrow>
         tx_type T30_MODEM_CNG 0 False (rx_type T30_MODEM_V21 0 True s)
     | T30_PHASE_B_RX \<Rightarrow>
         tx_type T30_MODEM_NONE 0 False (rx_type T30_MODEM_V21 0 True s)
     | T30_PHASE_D_RX \<Rightarrow>
         tx_type T30_MODEM_NONE 0 False (rx_type T30_MODEM_V21 0 True s)
     | T30_PHASE_B_TX \<Rightarrow>
         (let s1 = (if \<not> far_end_detected s \<and> timer_t0_t1 s > 0
                    then s\<lparr>timer_t0_t1 := ms_to_samples DEFAULT_TIMER_T1, far_end_detected := True\<rparr>
                    else s)
          in tx_type T30_MODEM_V21 0 True (rx_type T30_MODEM_NONE 0 False s1))
     | T30_PHASE_D_TX \<Rightarrow>
         (let s1 = (if \<not> far_end_detected s \<and> timer_t0_t1 s > 0
                    then s\<lparr>timer_t0_t1 := ms_to_samples DEFAULT_TIMER_T1, far_end_detected := True\<rparr>
                    else s)
          in tx_type T30_MODEM_V21 0 True (rx_type T30_MODEM_NONE 0 False s1))
     | T30_PHASE_C_NON_ECM_RX \<Rightarrow>
         (let s1 = s\<lparr>timer_t2_t4 := ms_to_samples DEFAULT_TIMER_T2, timer_is_t4 := False\<rparr>
          in tx_type T30_MODEM_NONE 0 False
               (rx_type (modem_type (fallback_sequence ! current_fallback s1))
                        (c_bool (short_train s1)) False s1))
     | T30_PHASE_C_NON_ECM_TX \<Rightarrow>
         (let s1 = s\<lparr>training_test_bits :=
                        (3 * bit_rate (fallback_sequence ! current_fallback s)) div 2\<rparr>
          in tx_type (modem_type (fallback_sequence ! current_fallback s1))
                     (c_bool (short_train s1)) False
               (rx_type T30_MODEM_NONE 0 False s1))
     | T30_PHASE_C_ECM_RX \<Rightarrow>
         (let s1 = s\<lparr>timer_t2_t4 := ms_to_samples DEFAULT_TIMER_T2, timer_is_t4 := False\<rparr>
          in tx_type T30_MODEM_NONE 0 False
               (rx_type (modem_type (fallback_sequence ! current_fallback s1))
                        (c_bool (short_train s1)) True s1))
     | T30_PHASE_C_ECM_TX \<Rightarrow>
         tx_type (modem_type (fallback_sequence ! current_fallback s))
                 (c_bool (short_train s)) True
           (rx_type T30_MODEM_NONE 0 False s)
     | T30_PHASE_E \<Rightarrow>
         (let s1 = s\<lparr>training_current_zeros := 0, training_most_zeros := 0\<rparr>
          in tx_type T30_MODEM_PAUSE FINAL_FLUSH_TIME False
               (rx_type T30_MODEM_NONE 0 False s1))
     | T30_PHASE_CALL_FINISHED \<Rightarrow>
         tx_type T30_MODEM_DONE 0 False (rx_type T30_MODEM_DONE 0 False s))"

definition set_phase :: "'t4 t30_state \<Rightarrow> t30_phase \<Rightarrow> 't4 t30_state" where
  "set_phase s p =
     (if p \<noteq> phase s then
        (let s1 = (if phase s \<noteq> T30_PHASE_A_CED \<and> phase s \<noteq> T30_PHASE_A_CNG
                   then s\<lparr>rx_signal_present := False\<rparr> else s);
             s2 = s1\<lparr>rx_trained := False, phase := p\<rparr>
         in phase_modems p s2)
      else s)"

definition queue_phase :: "'t4 t30_state \<Rightarrow> t30_phase \<Rightarrow> 't4 t30_state" where
  "queue_phase s p =
     (if rx_signal_present s then s\<lparr>next_phase := p\<rparr>
      else (set_phase s p)\<lparr>next_phase := T30_PHASE_IDLE\<rparr>)"

definition send_dcn :: "t30_fcf \<Rightarrow> 't4 t30_state \<Rightarrow> 't4 t30_state" where
  "send_dcn K s =
     send_simple_frame (set_state (queue_phase s T30_PHASE_D_TX) T30_STATE_C) (T30_DCN K)"


text \<open>The Send_hdlc calls of a trace, in order.\<close>

fun hdlc_frames :: "t30_event list \<Rightarrow> u8 list list" where
  "hdlc_frames [] = []"
| "hdlc_frames (Send_hdlc fr # es) = fr # hdlc_frames es"
| "hdlc_frames (e # es) = hdlc_frames es"

definition unexpected_final_frame :: "t30_fcf \<Rightarrow> 't4 t30_state \<Rightarrow> 't4 t30_state" where
  "unexpected_final_frame K s = send_dcn K (s\<lparr>current_status := T30_ERR_UNEXPECTED\<rparr>)"

subsection \<open>Capability frames: \<^verbatim>\<open>prune_dis_dtc\<close> and \<^verbatim>\<open>prune_dcs\<close>\<close>

text \<open>
  The two functions are the same code on \<^verbatim>\<open>dis_dtc_frame\<close> and on \<^verbatim>\<open>dcs_frame\<close>.
  \<open>prune_strip\<close> is the first loop (\<^verbatim>\<open>for (i = 18;  i > 4;  i--)\<close>, left by
  \<^verbatim>\<open>break\<close> at the first octet with content) and returns the frame with the final
  \<^verbatim>\<open>i\<close>; \<open>prune_fill\<close> is the second loop. The closing call of
  \<^verbatim>\<open>t30_decode_dis_dtc_dcs\<close> only logs.
\<close>

fun prune_strip :: "nat \<Rightarrow> u8 list \<Rightarrow> u8 list \<times> nat" where
  "prune_strip 0 fr = (fr, 0)"
| "prune_strip (Suc n) fr =
     (if Suc n > 4 then
        (let fr1 = fr[Suc n := (fr ! Suc n) AND
                      (DISBIT1 OR DISBIT2 OR DISBIT3 OR DISBIT4 OR DISBIT5 OR DISBIT6 OR DISBIT7)]
         in if fr1 ! Suc n \<noteq> 0 then (fr1, Suc n) else prune_strip n fr1)
      else (fr, Suc n))"

fun prune_fill :: "nat \<Rightarrow> u8 list \<Rightarrow> u8 list" where
  "prune_fill 0 fr = fr"
| "prune_fill (Suc n) fr =
     (if Suc n > 4 then prune_fill n (fr[Suc n := (fr ! Suc n) OR DISBIT8]) else fr)"

definition prune_frame :: "u8 list \<Rightarrow> u8 list \<times> nat" where
  "prune_frame fr =
     (case prune_strip 18 fr of (fr1, i) \<Rightarrow> (prune_fill (i - 1) fr1, i + 1))"

definition prune_dis_dtc :: "'t4 t30_state \<Rightarrow> 't4 t30_state" where
  "prune_dis_dtc s =
     (case prune_frame (dis_dtc_frame s) of
        (fr, n) \<Rightarrow> s\<lparr>dis_dtc_frame := fr, dis_dtc_len := n\<rparr>)"

definition prune_dcs :: "'t4 t30_state \<Rightarrow> 't4 t30_state" where
  "prune_dcs s =
     (case prune_frame (dcs_frame s) of
        (fr, n) \<Rightarrow> s\<lparr>dcs_frame := fr, dcs_len := n\<rparr>)"

subsection \<open>Sending: identity frames, PPS, and the frame sequences\<close>

text \<open>
  Strings are octet lists without the terminating NUL, so \<^verbatim>\<open>msg[0]\<close> is non-zero iff
  the list is not empty. \<^verbatim>\<open>send_20digit_msg_frame\<close> fills a buffer of 23 octets; a
  string of more than 20 characters would overrun it in C, and the model sends the first
  23 octets.
\<close>

definition send_20digit_msg_frame :: "'t4 t30_state \<Rightarrow> u8 \<Rightarrow> u8 list \<Rightarrow> 't4 t30_state" where
  "send_20digit_msg_frame s cmd msg =
     send_frame s (take 23 ([0xFF, 0x03, cmd OR dis_bit s] @ rev msg
                            @ replicate (20 - length msg) 0x20))"

definition send_ident_frame :: "'t4 t30_state \<Rightarrow> u8 \<Rightarrow> 't4 t30_state \<times> bool" where
  "send_ident_frame s cmd =
     (if local_ident s \<noteq> [] then (send_20digit_msg_frame s cmd (local_ident s), True)
      else (s, False))"

definition send_pw_frame :: "t30_fcf \<Rightarrow> 't4 t30_state \<Rightarrow> 't4 t30_state \<times> bool" where
  "send_pw_frame K s =
     (if local_password s \<noteq> []
      then (send_20digit_msg_frame s (T30_PWD K) (local_password s), True)
      else (s, False))"

definition send_sub_frame :: "t30_fcf \<Rightarrow> 't4 t30_state \<Rightarrow> 't4 t30_state \<times> bool" where
  "send_sub_frame K s =
     (if local_sub_address s \<noteq> []
      then (send_20digit_msg_frame s (T30_SUB K) (local_sub_address s), True)
      else (s, False))"

definition send_nsf_frame :: "t30_fcf \<Rightarrow> 't4 t30_state \<Rightarrow> 't4 t30_state \<times> bool" where
  "send_nsf_frame K s =
     (if local_nsf s \<noteq> []
      then (send_frame s ([0xFF, 0x03, T30_NSF K OR dis_bit s] @ local_nsf s), True)
      else (s, False))"

definition pps_frame :: "t30_fcf \<Rightarrow> 't4 t30_state \<Rightarrow> u8 list" where
  "pps_frame K s =
     [0xFF, 0x13, T30_PPS K OR dis_bit s,
      (if ecm_at_page_end s then next_tx_step s OR dis_bit s else T30_NULL K),
      word_of_int (ecm_page s AND 0xFF),
      word_of_int (ecm_block s AND 0xFF),
      word_of_int (if ecm_frames_this_burst s = 0 then 0 else ecm_frames_this_burst s - 1)]"

definition send_pps_frame :: "t30_fcf \<Rightarrow> 't4 t30_state \<Rightarrow> 't4 t30_state \<times> u8" where
  "send_pps_frame K s =
     (let frame = pps_frame K s in (send_frame s frame, (frame ! 3) AND 0xFE))"

text \<open>The macros \<^verbatim>\<open>set_dis_dtc_bit\<close> and \<^verbatim>\<open>clr_dis_dtc_bit\<close>, on a frame.\<close>

definition set_frame_bit :: "u8 list \<Rightarrow> nat \<Rightarrow> u8 list" where
  "set_frame_bit fr b =
     fr[3 + (b - 1) div 8 := (fr ! (3 + (b - 1) div 8)) OR push_bit ((b - 1) mod 8) 1]"


definition clr_frame_bit :: "u8 list \<Rightarrow> nat \<Rightarrow> u8 list" where
  "clr_frame_bit fr b =
     fr[3 + (b - 1) div 8 := (fr ! (3 + (b - 1) div 8)) AND NOT (push_bit ((b - 1) mod 8) 1)]"

definition set_dis_or_dtc :: "t30_fcf \<Rightarrow> 't4 t30_state \<Rightarrow> 't4 t30_state" where
  "set_dis_or_dtc K s =
     (let f1 = (dis_dtc_frame s)[2 := T30_DIS K OR dis_bit s];
          f2 = (if rx_file s \<noteq> [] then set_frame_bit f1 10 else clr_frame_bit f1 10);
          f3 = (if tx_file s \<noteq> [] then set_frame_bit f2 9 else clr_frame_bit f2 9)
      in s\<lparr>dis_dtc_frame := f3\<rparr>)"



definition send_dis_or_dtc_sequence :: "t30_fcf \<Rightarrow> 't4 t30_state \<Rightarrow> 't4 t30_state" where
  "send_dis_or_dtc_sequence K s =
     (let s1 = set_state (prune_dis_dtc s) T30_STATE_R in
      case send_nsf_frame K s1 of
        (s2, True) \<Rightarrow> s2\<lparr>step := 0\<rparr>
      | (s2, False) \<Rightarrow>
          (case send_ident_frame s2 (T30_CSI K) of
             (s3, True) \<Rightarrow> s3\<lparr>step := 1\<rparr>
           | (s3, False) \<Rightarrow>
               (let s4 = set_dis_or_dtc K s3
                in (send_frame s4 (take (dis_dtc_len s4) (dis_dtc_frame s4)))\<lparr>step := 2\<rparr>)))"

definition send_dcs_sequence :: "t30_fcf \<Rightarrow> 't4 t30_state \<Rightarrow> 't4 t30_state" where
  "send_dcs_sequence K s =
     (let s1 = set_state (prune_dcs s) T30_STATE_D in
      case send_pw_frame K s1 of
        (s2, True) \<Rightarrow> s2\<lparr>step := 0\<rparr>
      | (s2, False) \<Rightarrow>
          (case send_sub_frame K s2 of
             (s3, True) \<Rightarrow> s3\<lparr>step := 1\<rparr>
           | (s3, False) \<Rightarrow>
               (case send_ident_frame s3 (T30_TSI K) of
                  (s4, True) \<Rightarrow> s4\<lparr>step := 2\<rparr>
                | (s4, False) \<Rightarrow>
                    (send_frame s4 (take (dcs_len s4) (dcs_frame s4)))\<lparr>step := 3\<rparr>)))"

subsection \<open>Retries: \<^verbatim>\<open>repeat_last_command\<close> and \<^verbatim>\<open>timer_t4_expired\<close>\<close>

definition repeat_last_command :: "t30_fcf \<Rightarrow> 't4 t30_state \<Rightarrow> 't4 t30_state" where
  "repeat_last_command K s =
    (case state s of
       T30_STATE_R \<Rightarrow>
         send_dis_or_dtc_sequence K (set_phase (s\<lparr>dis_received := False\<rparr>) T30_PHASE_B_TX)
     | T30_STATE_III_Q_MCF \<Rightarrow> send_simple_frame (set_phase s T30_PHASE_D_TX) (T30_MCF K)
     | T30_STATE_III_Q_RTP \<Rightarrow> send_simple_frame (set_phase s T30_PHASE_D_TX) (T30_RTP K)
     | T30_STATE_III_Q_RTN \<Rightarrow> send_simple_frame (set_phase s T30_PHASE_D_TX) (T30_RTN K)
     | T30_STATE_II_Q \<Rightarrow> send_simple_frame (set_phase s T30_PHASE_D_TX) (next_tx_step s)
     | T30_STATE_IV_PPS_NULL \<Rightarrow> fst (send_pps_frame K (set_phase s T30_PHASE_D_TX))
     | T30_STATE_IV_PPS_Q \<Rightarrow> fst (send_pps_frame K (set_phase s T30_PHASE_D_TX))
     | T30_STATE_IV_PPS_RNR \<Rightarrow> send_simple_frame (set_phase s T30_PHASE_D_TX) (T30_RNR K)
     | T30_STATE_IV_EOR_RNR \<Rightarrow> send_simple_frame (set_phase s T30_PHASE_D_TX) (T30_RNR K)
     | T30_STATE_D \<Rightarrow> send_dcs_sequence K (set_phase s T30_PHASE_B_TX)
     | T30_STATE_F_FTT \<Rightarrow> send_simple_frame (set_phase s T30_PHASE_B_TX) (T30_FTT K)
     | T30_STATE_F_CFR \<Rightarrow> send_simple_frame (set_phase s T30_PHASE_B_TX) (T30_CFR K)
     | T30_STATE_D_POST_TCF \<Rightarrow>
         send_dcs_sequence K (set_phase (s\<lparr>short_train := False\<rparr>) T30_PHASE_B_TX)
     | T30_STATE_F_POST_RCP_RNR \<Rightarrow> s
     | _ \<Rightarrow> s)"

definition timer_t4_expired :: "t30_fcf \<Rightarrow> 't4 t30_state \<Rightarrow> 't4 t30_state" where
  "timer_t4_expired K s =
     (let s1 = s\<lparr>retries := retries s + 1\<rparr> in
      if retries s1 > MAX_MESSAGE_TRIES then
        send_dcn K
          (s1\<lparr>current_status :=
                (case state s1 of
                   T30_STATE_D_POST_TCF \<Rightarrow> T30_ERR_PHBDEADTX
                 | T30_STATE_II_Q \<Rightarrow> T30_ERR_PHDDEADTX
                 | T30_STATE_IV_PPS_NULL \<Rightarrow> T30_ERR_PHDDEADTX
                 | T30_STATE_IV_PPS_Q \<Rightarrow> T30_ERR_PHDDEADTX
                 | _ \<Rightarrow> T30_ERR_RETRYDCN)\<rparr>)
      else repeat_last_command K s1)"

text \<open>
  Between two expiries of T4 the front end reports twice that sending is complete. This is
  the case \<^verbatim>\<open>T30_STATE_II_Q\<close>, \<^verbatim>\<open>T30_STATE_IV_PPS_NULL\<close>, \<^verbatim>\<open>T30_STATE_IV_PPS_Q\<close>,
  \<^verbatim>\<open>T30_STATE_IV_PPS_RNR\<close>, \<^verbatim>\<open>T30_STATE_IV_EOR_RNR\<close>, \<^verbatim>\<open>T30_STATE_F_POST_RCP_RNR\<close>
  of \<^verbatim>\<open>t30_front_end_status\<close> for \<^verbatim>\<open>T30_FRONT_END_SEND_COMPLETE\<close>; the other cases of
  that function are not modelled.
\<close>

definition front_end_send_complete_post_msg :: "'t4 t30_state \<Rightarrow> 't4 t30_state" where
  "front_end_send_complete_post_msg s =
     (if step s = 0 then
        (if send_hdlc_handler s then s\<lparr>events := events s @ [Send_hdlc []]\<rparr> else s)
          \<lparr>step := step s + 1\<rparr>
      else (set_phase s T30_PHASE_D_RX)
             \<lparr>timer_t2_t4 := ms_to_samples DEFAULT_TIMER_T4, timer_is_t4 := True\<rparr>)"

text \<open>
  One retry cycle in a state that awaits a response: T4 expires, and the front end then
  reports \<open>n\<close> times that sending is complete, which re-arms T4.
\<close>

definition t4_retry_cycle :: "t30_fcf \<Rightarrow> nat \<Rightarrow> 't4 t30_state \<Rightarrow> 't4 t30_state" where
  "t4_retry_cycle K n s = (front_end_send_complete_post_msg ^^ n) (timer_t4_expired K s)"

text \<open>The frames handed to \<^verbatim>\<open>send_hdlc_handler\<close>, without the end-of-sequence calls.\<close>

definition frames_sent :: "'t4 t30_state \<Rightarrow> u8 list list" where
  "frames_sent s = filter (\<lambda>fr. fr \<noteq> []) (hdlc_frames (events s))"

subsection \<open>ECM receive: \<^verbatim>\<open>process_rx_pps\<close> and \<^verbatim>\<open>send_deferred_pps_response\<close>\<close>

definition rx_start_page :: "'t4 t4_ops \<Rightarrow> 't4 t30_state \<Rightarrow> 't4 t30_state" where
  "rx_start_page T s =
     (let c = fold (t4_call T)
                [T4_rx_set_image_width (image_width s),
                 T4_rx_set_sub_address (far_sub_address s),
                 T4_rx_set_dcs (rx_dcs_string s),
                 T4_rx_set_far_ident (far_ident s),
                 T4_rx_set_vendor (vendor s),
                 T4_rx_set_model (model s),
                 T4_rx_set_rx_encoding (line_encoding s),
                 T4_rx_set_x_resolution (x_resolution s),
                 T4_rx_set_y_resolution (y_resolution s),
                 T4_rx_start_page] (t4 s)
      in s\<lparr>t4 := c, ecm_len := replicate 256 (- 1), ecm_page := ecm_page s + 1,
            ecm_block := 0, ecm_frames := - 1, ecm_frames_this_burst := 0\<rparr>)"

text \<open>
  The loop of \<^verbatim>\<open>t30_ecm_commit_partial_page\<close> over the slots \<open>i, i + 1, \<dots>\<close>, with
  \<open>k\<close> slots still to go; it stops early when the codec reports the end of the document.
\<close>

primrec commit_loop ::
  "'t4 t4_ops \<Rightarrow> u8 list list \<Rightarrow> int list \<Rightarrow> nat \<Rightarrow> nat \<Rightarrow> 't4 \<Rightarrow> bool \<times> 't4" where
  "commit_loop T dat lens 0 i c = (False, c)"
| "commit_loop T dat lens (Suc k) i c =
     (case t4_rx_put_chunk T c (dat ! i) (lens ! i) of
        (True, c1) \<Rightarrow> (True, c1)
      | (False, c1) \<Rightarrow> commit_loop T dat lens k (Suc i) c1)"

definition t30_ecm_commit_partial_page ::
  "'t4 t4_ops \<Rightarrow> 't4 t30_state \<Rightarrow> 't4 t30_state \<times> int" where
  "t30_ecm_commit_partial_page T s =
     (case commit_loop T (ecm_data s) (ecm_len s) (nat (ecm_frames s)) 0 (t4 s) of
        (eod, c) \<Rightarrow>
          (s\<lparr>t4 := c, ecm_len := replicate 256 (- 1), ecm_frames := - 1\<rparr>,
           if eod then - 1 else 0))"

definition send_deferred_pps_response ::
  "t30_fcf \<Rightarrow> 't4 t4_ops \<Rightarrow> 't4 t30_state \<Rightarrow> 't4 t30_state" where
  "send_deferred_pps_response K T s =
     (let s1 = queue_phase s T30_PHASE_D_TX in
      if ecm_first_bad_frame s1 \<ge> ecm_frames s1 then
        (let s2 =
           (if last_pps_fcf2 s1 = T30_NULL K then fst (t30_ecm_commit_partial_page T s1)
            else
              (let a = s1\<lparr>next_rx_step := last_pps_fcf2 s1\<rparr>;
                   b = fst (t30_ecm_commit_partial_page T a);
                   c = b\<lparr>t4 := t4_call T T4_rx_end_page (t4 b)\<rparr>;
                   d = (if phase_d_handler c
                        then c\<lparr>events := events c @ [Phase_d (last_pps_fcf2 c)]\<rparr> else c)
               in rx_start_page T d))
         in send_simple_frame (set_state s2 T30_STATE_F_POST_RCP_MCF) (T30_MCF K))
      else
        (let s2 = set_state s1 T30_STATE_F_POST_RCP_PPR;
             s3 = s2\<lparr>ecm_frame_map :=
                      (ecm_frame_map s2)[0 := 0xFF, 1 := 0x13, 2 := T30_PPR K OR dis_bit s2]\<rparr>
         in send_frame s3 (take (3 + 32) (ecm_frame_map s3))))"

text \<open>
  The scan of \<^verbatim>\<open>process_rx_pps\<close> over the 256 slots: \<open>pps_scan_step\<close> is the body of the
  inner loop for bit \<open>j\<close> of octet \<open>i\<close>, on the triple of the frame map, the first bad
  frame and \<^verbatim>\<open>frame_no\<close>.
\<close>

definition pps_scan_step ::
  "int list \<Rightarrow> nat \<Rightarrow> nat \<Rightarrow> u8 list \<times> int \<times> nat \<Rightarrow> u8 list \<times> int \<times> nat" where
  "pps_scan_step lens i j = (\<lambda>(m, fb, frame_no).
     if lens ! frame_no < 0
     then (m[i := (m ! i) OR push_bit j 1],
           (if int frame_no < fb then int frame_no else fb), frame_no + 1)
     else (m, fb, frame_no + 1))"

definition pps_scan_octet ::
  "int list \<Rightarrow> nat \<Rightarrow> u8 list \<times> int \<times> nat \<Rightarrow> u8 list \<times> int \<times> nat" where
  "pps_scan_octet lens i = (\<lambda>(m, fb, frame_no).
     fold (pps_scan_step lens i) [0..<8] (m[i := 0], fb, frame_no))"

definition pps_scan :: "int list \<Rightarrow> u8 list \<Rightarrow> u8 list \<times> int \<times> nat" where
  "pps_scan lens m = fold (pps_scan_octet lens) [3..<3 + 32] (m, 256, 0)"

text \<open>
  \<^verbatim>\<open>process_rx_pps\<close>. The local \<^verbatim>\<open>frames\<close> is \<^verbatim>\<open>msg[6] + 1\<close>; it is stored only when
  \<^verbatim>\<open>ecm_frames\<close> is negative. In the other branch the code changes the local to 0 when it
  is 0xFF and never reads it again, so that branch leaves the session as it is.
\<close>

definition process_rx_pps ::
  "t30_fcf \<Rightarrow> 't4 t4_ops \<Rightarrow> 't4 t30_state \<Rightarrow> u8 list \<Rightarrow> int \<Rightarrow> 't4 t30_state \<times> int" where
  "process_rx_pps K T s msg len =
     (if len < 7 then (s, - 1)
      else
        (let s1 = s\<lparr>last_pps_fcf2 := (msg ! 3) AND 0xFE\<rparr>;
             frames = uint (msg ! 6) + 1;
             s2 = (if ecm_frames s1 < 0 then s1\<lparr>ecm_frames := frames\<rparr> else s1);
             s3 = (case pps_scan (ecm_len s2) (ecm_frame_map s2) of
                     (m, fb, frame_no) \<Rightarrow> s2\<lparr>ecm_frame_map := m, ecm_first_bad_frame := fb\<rparr>)
         in if last_pps_fcf2 s3 \<in> set [T30_NULL K, T30_EOP K, T30_EOM K, T30_MPS K,
                                        T30_PRI_EOP K, T30_PRI_EOM K, T30_PRI_MPS K]
            then
              (if receiver_not_ready_count s3 > 0 then
                 (let a = queue_phase s3 T30_PHASE_D_TX;
                      b = a\<lparr>receiver_not_ready_count := receiver_not_ready_count a - 1\<rparr>
                  in (send_simple_frame (set_state b T30_STATE_F_POST_RCP_RNR) (T30_RNR K), 0))
               else (send_deferred_pps_response K T s3, 0))
            else (unexpected_final_frame K s3, 0)))"

subsection \<open>ECM transmit: \<^verbatim>\<open>process_rx_ppr\<close> and the frame burst\<close>

definition send_next_ecm_frame :: "t30_fcf \<Rightarrow> 't4 t30_state \<Rightarrow> 't4 t30_state \<times> int" where
  "send_next_ecm_frame K s =
     (case (if ecm_current_frame s < ecm_frames s
            then find (\<lambda>i. ecm_len s ! i \<ge> 0)
                   [nat (ecm_current_frame s)..<nat (ecm_frames s)]
            else None) of
        Some i \<Rightarrow>
          ((send_frame s (take (nat (ecm_len s ! i)) (ecm_data s ! i)))
             \<lparr>ecm_current_frame := int i + 1,
              ecm_frames_this_burst := ecm_frames_this_burst s + 1\<rparr>, 0)
      | None \<Rightarrow>
          (let s1 = (if ecm_current_frame s < ecm_frames s
                     then s\<lparr>ecm_current_frame := ecm_frames s\<rparr> else s)
           in if ecm_current_frame s1 \<le> ecm_frames s1 + 3 then
                ((send_frame (s1\<lparr>ecm_current_frame := ecm_current_frame s1 + 1\<rparr>)
                    [0xFF, 0x03, T4_RCP K])\<lparr>short_train := True\<rparr>, 0)
              else (s1, - 1)))"

definition send_first_ecm_frame :: "t30_fcf \<Rightarrow> 't4 t30_state \<Rightarrow> 't4 t30_state \<times> int" where
  "send_first_ecm_frame K s =
     send_next_ecm_frame K (s\<lparr>ecm_current_frame := 0, ecm_frames_this_burst := 0\<rparr>)"

text \<open>
  The body of the outer loop of \<^verbatim>\<open>process_rx_ppr\<close> for octet \<open>i\<close> of the bit map, on
  the pair of \<^verbatim>\<open>ecm_len\<close> and \<^verbatim>\<open>ecm_frame_map\<close>. The C \<^verbatim>\<open>mask\<close> is \<open>push_bit j 1\<close>.
\<close>

definition ppr_octet :: "u8 list \<Rightarrow> nat \<Rightarrow> int list \<times> u8 list \<Rightarrow> int list \<times> u8 list" where
  "ppr_octet msg i = (\<lambda>(lens, m).
     if msg ! (i + 3) = 0
     then (fold (\<lambda>j l. l[i * 8 + j := - 1]) [0..<8] lens, m[i + 3 := 0])
     else (fold (\<lambda>j l. if (msg ! (i + 3)) AND push_bit j 1 = 0 then l[i * 8 + j := - 1] else l)
             [0..<8] lens, m))"

definition process_rx_ppr ::
  "t30_fcf \<Rightarrow> 't4 t30_state \<Rightarrow> u8 list \<Rightarrow> int \<Rightarrow> 't4 t30_state" where
  "process_rx_ppr K s msg len =
     (let s1 = s\<lparr>ppr_count := ppr_count s + 1\<rparr> in
      if ppr_count s1 \<ge> 4 then send_simple_frame (set_state s1 T30_STATE_IV_CTC) (T30_CTC K)
      else if len \<noteq> 3 + 32 then s1
      else
        (case fold (ppr_octet msg) [0..<32] (ecm_len s1, ecm_frame_map s1) of
           (lens, m) \<Rightarrow>
             fst (send_first_ecm_frame K
                    (queue_phase (set_state (s1\<lparr>ecm_len := lens, ecm_frame_map := m\<rparr>)
                                            T30_STATE_IV)
                                 T30_PHASE_C_ECM_TX))))"

subsection \<open>Non-ECM reception: \<^verbatim>\<open>t30_non_ecm_put_bit\<close>\<close>






subsection \<open>HDLC reception: \<^verbatim>\<open>t30_hdlc_accept\<close>\<close>

text \<open>
  \<^verbatim>\<open>hdlc_accept_control_msg\<close> switches on the frame type for a frame without the final
  tag, and on the state for a final frame. The handlers behind the two switches are a
  parameter of the model.
\<close>

record 't4 t30_handlers =
  rx_non_final_msg :: "'t4 t30_state \<Rightarrow> u8 list \<Rightarrow> int \<Rightarrow> 't4 t30_state"
  process_state :: "t30_state_id \<Rightarrow> 't4 t30_state \<Rightarrow> u8 list \<Rightarrow> int \<Rightarrow> 't4 t30_state"

definition hdlc_accept_control_msg ::
  "'t4 t30_handlers \<Rightarrow> 't4 t30_state \<Rightarrow> u8 list \<Rightarrow> int \<Rightarrow> 't4 t30_state" where
  "hdlc_accept_control_msg H s msg len =
     (if (msg ! 1) AND 0x10 = 0 then
        (let s1 = (if phase s \<noteq> T30_PHASE_C_ECM_RX
                   then s\<lparr>timer_t2_t4 := ms_to_samples
                             (if timer_is_t4 s then DEFAULT_TIMER_T4 else DEFAULT_TIMER_T2)\<rparr>
                   else s)
         in rx_non_final_msg H s1 msg len)
      else
        (let s1 = s\<lparr>timer_t0_t1 := 0\<rparr> in process_state H (state s1) s1 msg len))"

definition hdlc_special_condition :: "putbit \<Rightarrow> 't4 t30_state \<Rightarrow> int \<Rightarrow> 't4 t30_state" where
  "hdlc_special_condition P s len =
     (if len = PUTBIT_TRAINING_FAILED P then s\<lparr>rx_trained := False, timer_t2_t4 := 0\<rparr>
      else if len = PUTBIT_TRAINING_SUCCEEDED P then
        s\<lparr>rx_signal_present := True, rx_trained := True\<rparr>
      else if len = PUTBIT_CARRIER_UP P then s\<lparr>rx_signal_present := True\<rparr>
      else if len = PUTBIT_CARRIER_DOWN P then
        (let s1 = s\<lparr>rx_signal_present := False, rx_trained := False\<rparr>
         in if next_phase s1 \<noteq> T30_PHASE_IDLE
            then (set_phase s1 (next_phase s1))\<lparr>next_phase := T30_PHASE_IDLE\<rparr> else s1)
      else if len = PUTBIT_FRAMING_OK P then
        (let s1 =
           (if \<not> far_end_detected s \<and> timer_t0_t1 s > 0 then
              (let a = s\<lparr>timer_t0_t1 := ms_to_samples DEFAULT_TIMER_T1, far_end_detected := True\<rparr>
               in if phase a = T30_PHASE_A_CED \<or> phase a = T30_PHASE_A_CNG
                  then set_phase a T30_PHASE_B_RX else a)
            else s)
         in if \<not> timer_is_t4 s1 \<and> timer_t2_t4 s1 > 0 then s1\<lparr>timer_t2_t4 := 0\<rparr> else s1)
      else s)"

definition t30_hdlc_accept ::
  "t30_fcf \<Rightarrow> putbit \<Rightarrow> 't4 t30_handlers \<Rightarrow> 't4 t30_state \<Rightarrow> u8 list \<Rightarrow> int \<Rightarrow> bool
     \<Rightarrow> 't4 t30_state" where
  "t30_hdlc_accept K P H s msg len ok =
     (if len < 0 then hdlc_special_condition P s len
      else if \<not> ok then (if crp_enabled s then send_simple_frame s (T30_CRP K) else s)
      else
        (let s1 = s\<lparr>timer_t2_t4 := 0\<rparr> in
         if len < 3 then s1
         else if msg ! 0 \<noteq> 0xFF \<or> \<not> (msg ! 1 = 0x03 \<or> msg ! 1 = 0x13) then s1
         else hdlc_accept_control_msg H s1 msg len))"

section \<open>The Bell MF receiver (src/bell_r2_mf.c): the end of a detection block\<close>

text \<open>
  \<^verbatim>\<open>bell_mf_rx\<close> runs six Goertzel filters over 120 samples and then decides on the six
  energies. The filters are floating-point signal processing and are not modelled: the
  model is the decision, from \<open>energy[0..5]\<close> on. The energies are values of any linearly
  ordered type \<open>'e\<close>, and the three macros \<^verbatim>\<open>BELL_MF_THRESHOLD\<close>, \<^verbatim>\<open>BELL_MF_TWIST\<close>
  and \<^verbatim>\<open>BELL_MF_RELATIVE_PEAK\<close> are a parameter: the threshold, and the products
  \<^verbatim>\<open>x*BELL_MF_TWIST\<close> and \<^verbatim>\<open>x*BELL_MF_RELATIVE_PEAK\<close> as functions of \<open>x\<close>.
  \<^verbatim>\<open>MAX_BELL_MF_DIGITS\<close> (spandsp/bell_r2_mf.h, not among the sources) is a parameter too.
\<close>

record 'e bell_mf_params =
  BELL_MF_THRESHOLD :: 'e
  BELL_MF_TWIST :: "'e \<Rightarrow> 'e"
  BELL_MF_RELATIVE_PEAK :: "'e \<Rightarrow> 'e"
  MAX_BELL_MF_DIGITS :: int

text \<open>The macros of the build without fixed point, with the energies read as reals.\<close>

definition bell_mf_real :: "real bell_mf_params" where
  "bell_mf_real = \<lparr> BELL_MF_THRESHOLD = 1600000000, BELL_MF_TWIST = (\<lambda>x. x * 4),
     BELL_MF_RELATIVE_PEAK = (\<lambda>x. x * (126 / 10)), MAX_BELL_MF_DIGITS = 128 \<rparr>"

definition bell_mf_positions :: string where
  "bell_mf_positions = ''1247C-358A--69*---0B----#''"

record bell_mf_rx_state =
  hits :: "char list"
  digits :: "char list"
  current_digits :: int
  lost_digits :: int
  callback :: bool
  delivered :: "string list"

text \<open>The scan for the two highest energies: the pair of \<^verbatim>\<open>best\<close> and \<^verbatim>\<open>second_best\<close>.\<close>

definition bell_mf_best :: "('e::linorder) list \<Rightarrow> nat \<times> nat" where
  "bell_mf_best energy =
     fold (\<lambda>i (best, second_best).
             if energy ! i \<ge> energy ! best then (i, best)
             else if energy ! i \<ge> energy ! second_best then (best, i)
             else (best, second_best))
          [2..<6]
          (if energy ! 0 > energy ! 1 then (0, 1) else (1, 0))"

text \<open>The relative peak loop over the bins, left by \<^verbatim>\<open>break\<close> with \<^verbatim>\<open>hit = 0\<close>.\<close>

primrec relative_peak_loop ::
  "('e::linorder) bell_mf_params \<Rightarrow> 'e list \<Rightarrow> nat \<Rightarrow> nat \<Rightarrow> nat list \<Rightarrow> bool" where
  "relative_peak_loop P energy best second_best [] = True"
| "relative_peak_loop P energy best second_best (i # is) =
     (if i \<noteq> best \<and> i \<noteq> second_best
         \<and> BELL_MF_RELATIVE_PEAK P (energy ! i) \<ge> energy ! second_best
      then False
      else relative_peak_loop P energy best second_best is)"

text \<open>Whether \<^verbatim>\<open>hit\<close> is non-zero after the level, twist and relative peak tests.\<close>

definition bell_mf_hit :: "('e::linorder) bell_mf_params \<Rightarrow> 'e list \<Rightarrow> bool" where
  "bell_mf_hit P energy =
     (case bell_mf_best energy of
        (best, second_best) \<Rightarrow>
          if energy ! best \<ge> BELL_MF_THRESHOLD P
             \<and> energy ! second_best \<ge> BELL_MF_THRESHOLD P
             \<and> energy ! best < BELL_MF_TWIST P (energy ! second_best)
             \<and> BELL_MF_TWIST P (energy ! best) > energy ! second_best
          then relative_peak_loop P energy best second_best [0..<6]
          else False)"

definition bell_mf_digit :: "('e::linorder) list \<Rightarrow> char" where
  "bell_mf_digit energy =
     (case bell_mf_best energy of
        (best, second_best) \<Rightarrow>
          (let lo = (if second_best < best then second_best else best);
               hi = (if second_best < best then best else second_best)
           in bell_mf_positions ! (lo * 5 + hi - 1)))"

text \<open>The value of \<^verbatim>\<open>hit\<close> that the block leaves in \<^verbatim>\<open>hits[4]\<close>: the digit, or 0.\<close>

definition bell_mf_block_result :: "('e::linorder) bell_mf_params \<Rightarrow> 'e list \<Rightarrow> char" where
  "bell_mf_block_result P energy =
     (if bell_mf_hit P energy then bell_mf_digit energy else CHR 0x00)"

definition bell_mf_history_test :: "char list \<Rightarrow> char \<Rightarrow> bool" where
  "bell_mf_history_test h hit \<longleftrightarrow>
     hit = h ! 4 \<and> hit = h ! 3
     \<and> ((hit \<noteq> CHR ''*'' \<and> hit \<noteq> h ! 2 \<and> hit \<noteq> h ! 1)
        \<or> (hit = CHR ''*'' \<and> hit = h ! 2 \<and> hit \<noteq> h ! 1 \<and> hit \<noteq> h ! 0))"

definition bell_mf_block_end ::
  "('e::linorder) bell_mf_params \<Rightarrow> bell_mf_rx_state \<Rightarrow> 'e list \<Rightarrow> bell_mf_rx_state" where
  "bell_mf_block_end P s energy =
     (let hit = bell_mf_block_result P energy;
          s1 =
            (if bell_mf_hit P energy \<and> bell_mf_history_test (hits s) hit then
               (if current_digits s < MAX_BELL_MF_DIGITS P then
                  (let d = take (nat (current_digits s)) (digits s) @ [hit];
                       a = s\<lparr>digits := d, current_digits := current_digits s + 1\<rparr>
                   in if callback a
                      then a\<lparr>delivered := delivered a @ [d], current_digits := 0\<rparr>
                      else a)
                else s\<lparr>lost_digits := lost_digits s + 1\<rparr>)
             else s)
      in s1\<lparr>hits := [hits s ! 1, hits s ! 2, hits s ! 3, hits s ! 4, hit]\<rparr>)"

text \<open>A run of detection blocks, given by their energies.\<close>

definition bell_mf_blocks ::
  "('e::linorder) bell_mf_params \<Rightarrow> bell_mf_rx_state \<Rightarrow> 'e list list \<Rightarrow> bell_mf_rx_state" where
  "bell_mf_blocks P s es = fold (\<lambda>e s. bell_mf_block_end P s e) es s"

section \<open>Concrete sessions and frames\<close>

text \<open>
  A session with every field zero, as \<^verbatim>\<open>memset\<close> leaves it in \<^verbatim>\<open>t30_init\<close>, the three
  handlers of \<^verbatim>\<open>t30_init\<close> installed, and a codec without state.
\<close>

definition session0 :: "unit t30_state" where
  "session0 = \<lparr> phase = T30_PHASE_IDLE, next_phase = T30_PHASE_IDLE, state = T30_STATE_ANSWERING,
     step = 0, dis_received = False, rx_signal_present = False, rx_trained = False,
     far_end_detected = False, short_train = False, in_message = False,
     timer_t0_t1 = 0, timer_t2_t4 = 0, timer_is_t4 = False, retries = 0,
     current_status = T30_ERR_OK, current_fallback = 0,
     training_current_zeros = 0, training_most_zeros = 0, training_test_bits = 0,
     next_tx_step = 0, next_rx_step = 0, last_pps_fcf2 = 0,
     receiver_not_ready_count = 0, ppr_count = 0,
     ecm_len = replicate 256 0, ecm_data = replicate 256 (replicate 260 0),
     ecm_frame_map = replicate 35 0, ecm_frames = 0, ecm_first_bad_frame = 0,
     ecm_page = 0, ecm_block = 0, ecm_frames_this_burst = 0, ecm_current_frame = 0,
     ecm_at_page_end = False,
     dis_dtc_frame = replicate 19 0, dis_dtc_len = 0, dcs_frame = replicate 19 0, dcs_len = 0,
     local_nsf = [], local_ident = [], local_password = [], local_sub_address = [],
     rx_file = [], tx_file = [],
     image_width = 0, line_encoding = 0, x_resolution = 0, y_resolution = 0,
     far_ident = [], far_sub_address = [], rx_dcs_string = [], vendor = [], model = [],
     calling_party = False, iaf = [], supported_modems = [], supported_compressions = [],
     supported_resolutions = [], supported_image_sizes = [], supported_polling_features = [],
     ecm_allowed = False, support_fnv = False, crp_enabled = False,
     send_hdlc_handler = True, set_rx_type_handler = True, set_tx_type_handler = True,
     phase_d_handler = False, t4 = (), events = [] \<rparr>"

definition t4_none :: "unit t4_ops" where
  "t4_none = \<lparr> t4_call = (\<lambda>c u. u), t4_rx_put_chunk = (\<lambda>u d n. (False, u)),
     t4_rx_put_bit = (\<lambda>u b. (False, u)) \<rparr>"

definition handlers_none :: "unit t30_handlers" where
  "handlers_none = \<lparr> rx_non_final_msg = (\<lambda>s msg len. s),
     process_state = (\<lambda>st s msg len. s) \<rparr>"

text \<open>
  An ECM sender that has sent the three frames of the last block of a page and its PPS,
  and a PPR that asks for no frame.
\<close>

definition pps_sender :: "unit t30_state" where
  "pps_sender = session0\<lparr>state := T30_STATE_IV_PPS_Q, phase := T30_PHASE_D_RX,
     dis_received := True, next_tx_step := 0x2E, ecm_at_page_end := True, ecm_page := 2,
     ecm_block := 1, ecm_frames := 3, ecm_frames_this_burst := 3,
     ecm_len := [260, 260, 260] @ replicate 253 (- 1)\<rparr>"

definition ppr_none :: "u8 list" where
  "ppr_none = [0xFF, 0x13, 0xBC] @ replicate 32 0"

text \<open>
  Scenario E of the specification: an ECM receiver with frames 0 to 99 stored and the
  rest of the buffer empty receives PPS-EOP with the count octet 100, that is 101 frames.
  \<open>ppr_E\<close> is the PPR that the receiver sends. \<open>rx_F\<close> is the same receiver with frame
  100 stored as well.
\<close>

definition rx_E :: "unit t30_state" where
  "rx_E = session0\<lparr>state := T30_STATE_F_POST_DOC_ECM, phase := T30_PHASE_D_RX,
     ecm_frames := - 1, ecm_len := replicate 100 256 @ replicate 156 (- 1)\<rparr>"


definition pps_E :: "u8 list" where
  "pps_E = [0xFF, 0x13, 0xBF, 0x2F, 0x00, 0x00, 100]"

definition ppr_E :: "u8 list" where
  "ppr_E = [0xFF, 0x13, 0xBC] @ replicate 12 0x00 @ [0xF0] @ replicate 19 0xFF"

text \<open>
  The sender of scenario E: 101 frames of the block in the buffer, all sent, and the PPS
  sent. It receives \<open>ppr_E\<close>.
\<close>

definition tx_E :: "unit t30_state" where
  "tx_E = session0\<lparr>state := T30_STATE_IV_PPS_Q, phase := T30_PHASE_D_RX,
     dis_received := True, next_tx_step := 0x2E, ecm_at_page_end := True,
     ecm_frames := 101, ecm_frames_this_burst := 101, ecm_current_frame := 105,
     ecm_len := replicate 101 260 @ replicate 155 (- 1)\<rparr>"

subsection \<open>\<^verbatim>\<open>t30_restart\<close> and \<^verbatim>\<open>t30_init\<close>\<close>





text \<open>
  A sender that has sent a page and EOP and awaits the response in state II_Q; and the same
  sender after three retry cycles, in each of which T4 expires and the front end reports
  twice that sending is complete.
\<close>

definition tx_ii_q :: "unit t30_state" where
  "tx_ii_q = session0\<lparr>state := T30_STATE_II_Q, phase := T30_PHASE_D_RX, next_tx_step := 0x2E,
     timer_is_t4 := True\<rparr>"

definition tx_ii_q_3 :: "unit t30_state" where
  "tx_ii_q_3 = t4_retry_cycle fcf_T30 2 (t4_retry_cycle fcf_T30 2 (t4_retry_cycle fcf_T30 2 tx_ii_q))"

subsection \<open>The command or response of a state that awaits an answer\<close>

text \<open>
  The frame that the engine sends where it enters a state that awaits an answer, read off
  the calls that follow \<^verbatim>\<open>set_state\<close> in the source: MCF, RTP and RTN after a page
  (\<^verbatim>\<open>process_state_f_post_doc_non_ecm\<close>), the post-page command \<^verbatim>\<open>next_tx_step\<close>
  (\<^verbatim>\<open>t30_front_end_status\<close>, state I), the PPS frame (same function, state IV), RR in
  answer to RNR (\<^verbatim>\<open>process_state_iv_pps_null\<close>, \<^verbatim>\<open>process_state_iv_pps_q\<close>,
  \<^verbatim>\<open>process_state_iv_pps_rnr\<close>, \<^verbatim>\<open>process_state_iv_eor\<close>, \<^verbatim>\<open>process_state_iv_eor_rnr\<close>),
  and FTT or CFR after the training check (\<^verbatim>\<open>t30_non_ecm_put_bit\<close>).
\<close>

definition entry_frame :: "t30_fcf \<Rightarrow> 't4 t30_state \<Rightarrow> u8 list" where
  "entry_frame K s =
     (case state s of
        T30_STATE_III_Q_MCF \<Rightarrow> [0xFF, 0x13, T30_MCF K OR dis_bit s]
      | T30_STATE_III_Q_RTP \<Rightarrow> [0xFF, 0x13, T30_RTP K OR dis_bit s]
      | T30_STATE_III_Q_RTN \<Rightarrow> [0xFF, 0x13, T30_RTN K OR dis_bit s]
      | T30_STATE_II_Q \<Rightarrow> [0xFF, 0x13, next_tx_step s OR dis_bit s]
      | T30_STATE_IV_PPS_NULL \<Rightarrow> pps_frame K s
      | T30_STATE_IV_PPS_Q \<Rightarrow> pps_frame K s
      | T30_STATE_IV_PPS_RNR \<Rightarrow> [0xFF, 0x13, T30_RR K OR dis_bit s]
      | T30_STATE_IV_EOR_RNR \<Rightarrow> [0xFF, 0x13, T30_RR K OR dis_bit s]
      | T30_STATE_F_FTT \<Rightarrow> [0xFF, 0x13, T30_FTT K OR dis_bit s]
      | T30_STATE_F_CFR \<Rightarrow> [0xFF, 0x13, T30_CFR K OR dis_bit s]
      | _ \<Rightarrow> [])"






subsection \<open>A run of the Bell MF receiver\<close>

text \<open>
  \<^verbatim>\<open>bell_mf_rx_init\<close>: the history holds five zeros and no digit is stored. The energies of
  a block of KP (the tones of bins 2 and 5) and of a silent block; and the receiver after
  two silent blocks and three blocks of KP, without a callback.
\<close>

definition bell_mf_rx_init :: "bool \<Rightarrow> bell_mf_rx_state" where
  "bell_mf_rx_init cb = \<lparr> hits = replicate 5 (CHR 0x00), digits = [], current_digits = 0,
     lost_digits = 0, callback = cb, delivered = [] \<rparr>"

definition energy_kp :: "real list" where
  "energy_kp = [0, 0, 2000000000, 0, 0, 2000000000]"

definition energy_silence :: "real list" where
  "energy_silence = [0, 0, 0, 0, 0, 0]"

definition bell_mf_kp_run :: bell_mf_rx_state where
  "bell_mf_kp_run = bell_mf_blocks bell_mf_real (bell_mf_rx_init False)
     [energy_silence, energy_silence, energy_kp, energy_kp, energy_kp]"

section \<open>Auxiliary notions for the proofs\<close>

text \<open>
  A change of phase writes the phase, the signal flags, the timers, the training counters
  and the trace, and nothing else. \<open>session_core\<close> blanks these fields, so that two
  sessions with the same core agree on all the others.
\<close>

definition session_core :: "'t4 t30_state \<Rightarrow> 't4 t30_state" where
  "session_core s =
     s\<lparr>phase := T30_PHASE_IDLE, next_phase := T30_PHASE_IDLE,
       rx_signal_present := False, rx_trained := False, far_end_detected := False,
       timer_t0_t1 := 0, timer_t2_t4 := 0, timer_is_t4 := False,
       training_current_zeros := 0, training_most_zeros := 0, training_test_bits := 0,
       events := []\<rparr>"




text \<open>
  What the scan of \<^verbatim>\<open>bell_mf_rx\<close> for the two highest energies has established after
  the bins below \<open>n\<close>: \<open>fst p\<close> holds the highest energy and \<open>snd p\<close>, another bin, the
  highest of the rest.
\<close>

definition bell_mf_best_ok :: "('e::linorder) list \<Rightarrow> nat \<Rightarrow> nat \<times> nat \<Rightarrow> bool" where
  "bell_mf_best_ok energy n p \<longleftrightarrow>
     fst p < n \<and> snd p < n \<and> fst p \<noteq> snd p \<and> energy ! snd p \<le> energy ! fst p
     \<and> (\<forall>i<n. i \<noteq> fst p \<longrightarrow> energy ! i \<le> energy ! snd p)"

section \<open>Proofs: frames of the trace and changes of phase\<close>

lemma hdlc_frames_append: "hdlc_frames (xs @ ys) = hdlc_frames xs @ hdlc_frames ys"
  by (induction xs rule: hdlc_frames.induct) simp_all

lemma session_core_fields:
  assumes "session_core s' = session_core s"
  shows "state s' = state s \<and> step s' = step s \<and> dis_received s' = dis_received s
    \<and> short_train s' = short_train s \<and> in_message s' = in_message s
    \<and> retries s' = retries s \<and> current_status s' = current_status s
    \<and> current_fallback s' = current_fallback s
    \<and> next_tx_step s' = next_tx_step s \<and> next_rx_step s' = next_rx_step s
    \<and> last_pps_fcf2 s' = last_pps_fcf2 s
    \<and> receiver_not_ready_count s' = receiver_not_ready_count s
    \<and> ppr_count s' = ppr_count s
    \<and> ecm_len s' = ecm_len s \<and> ecm_data s' = ecm_data s
    \<and> ecm_frame_map s' = ecm_frame_map s \<and> ecm_frames s' = ecm_frames s
    \<and> ecm_first_bad_frame s' = ecm_first_bad_frame s
    \<and> ecm_page s' = ecm_page s \<and> ecm_block s' = ecm_block s
    \<and> ecm_frames_this_burst s' = ecm_frames_this_burst s
    \<and> ecm_current_frame s' = ecm_current_frame s
    \<and> ecm_at_page_end s' = ecm_at_page_end s
    \<and> dis_dtc_frame s' = dis_dtc_frame s \<and> dis_dtc_len s' = dis_dtc_len s
    \<and> dcs_frame s' = dcs_frame s \<and> dcs_len s' = dcs_len s
    \<and> local_nsf s' = local_nsf s \<and> local_ident s' = local_ident s
    \<and> local_password s' = local_password s \<and> local_sub_address s' = local_sub_address s
    \<and> rx_file s' = rx_file s \<and> tx_file s' = tx_file s
    \<and> image_width s' = image_width s \<and> line_encoding s' = line_encoding s
    \<and> x_resolution s' = x_resolution s \<and> y_resolution s' = y_resolution s
    \<and> far_ident s' = far_ident s \<and> far_sub_address s' = far_sub_address s
    \<and> rx_dcs_string s' = rx_dcs_string s \<and> vendor s' = vendor s \<and> model s' = model s
    \<and> crp_enabled s' = crp_enabled s
    \<and> send_hdlc_handler s' = send_hdlc_handler s
    \<and> set_rx_type_handler s' = set_rx_type_handler s
    \<and> set_tx_type_handler s' = set_tx_type_handler s
    \<and> phase_d_handler s' = phase_d_handler s \<and> t4 s' = t4 s"
  using arg_cong[OF assms, of state] arg_cong[OF assms, of step]
    arg_cong[OF assms, of dis_received] arg_cong[OF assms, of short_train]
    arg_cong[OF assms, of in_message] arg_cong[OF assms, of retries]
    arg_cong[OF assms, of current_status] arg_cong[OF assms, of current_fallback]
    arg_cong[OF assms, of next_tx_step] arg_cong[OF assms, of next_rx_step]
    arg_cong[OF assms, of last_pps_fcf2] arg_cong[OF assms, of receiver_not_ready_count]
    arg_cong[OF assms, of ppr_count] arg_cong[OF assms, of ecm_len]
    arg_cong[OF assms, of ecm_data] arg_cong[OF assms, of ecm_frame_map]
    arg_cong[OF assms, of ecm_frames] arg_cong[OF assms, of ecm_first_bad_frame]
    arg_cong[OF assms, of ecm_page] arg_cong[OF assms, of ecm_block]
    arg_cong[OF assms, of ecm_frames_this_burst] arg_cong[OF assms, of ecm_current_frame]
    arg_cong[OF assms, of ecm_at_page_end] arg_cong[OF assms, of dis_dtc_frame]
    arg_cong[OF assms, of dis_dtc_len] arg_cong[OF assms, of dcs_frame]
    arg_cong[OF assms, of dcs_len] arg_cong[OF assms, of local_nsf]
    arg_cong[OF assms, of local_ident] arg_cong[OF assms, of local_password]
    arg_cong[OF assms, of local_sub_address] arg_cong[OF assms, of rx_file]
    arg_cong[OF assms, of tx_file] arg_cong[OF assms, of image_width]
    arg_cong[OF assms, of line_encoding] arg_cong[OF assms, of x_resolution]
    arg_cong[OF assms, of y_resolution] arg_cong[OF assms, of far_ident]
    arg_cong[OF assms, of far_sub_address] arg_cong[OF assms, of rx_dcs_string]
    arg_cong[OF assms, of vendor] arg_cong[OF assms, of model]
    arg_cong[OF assms, of crp_enabled] arg_cong[OF assms, of send_hdlc_handler]
    arg_cong[OF assms, of set_rx_type_handler] arg_cong[OF assms, of set_tx_type_handler]
    arg_cong[OF assms, of phase_d_handler] arg_cong[OF assms, of t4]
  by (simp add: session_core_def)

lemma session_core_phase_modems: "session_core (phase_modems p s) = session_core s"
  by (cases p) (simp_all add: session_core_def phase_modems_def rx_type_def tx_type_def Let_def)

lemma hdlc_frames_phase_modems:
  "hdlc_frames (events (phase_modems p s)) = hdlc_frames (events s)"
  by (cases p) (simp_all add: phase_modems_def rx_type_def tx_type_def Let_def hdlc_frames_append)

lemma session_core_set_phase: "session_core (set_phase s p) = session_core s"
proof -
  have "session_core (s\<lparr>rx_trained := a, phase := b\<rparr>) = session_core s"
    "session_core (s\<lparr>rx_signal_present := c, rx_trained := a, phase := b\<rparr>) = session_core s"
    for a b c
    by (simp_all add: session_core_def)
  then show ?thesis
    by (simp add: set_phase_def Let_def session_core_phase_modems)
qed

lemma hdlc_frames_set_phase [simp]:
  "hdlc_frames (events (set_phase s p)) = hdlc_frames (events s)"
  by (simp add: set_phase_def Let_def hdlc_frames_phase_modems)

lemma phase_set_phase [simp]: "phase (set_phase s p) = p"
proof -
  have "phase (phase_modems p s') = phase s'" for s' :: "'a t30_state"
    by (cases p) (simp_all add: phase_modems_def rx_type_def tx_type_def Let_def)
  then show ?thesis by (simp add: set_phase_def Let_def)
qed

lemma session_core_queue_phase: "session_core (queue_phase s p) = session_core s"
proof -
  have "session_core (s'\<lparr>next_phase := a\<rparr>) = session_core s'" for a and s' :: "'a t30_state"
    by (simp add: session_core_def)
  then show ?thesis by (simp add: queue_phase_def session_core_set_phase)
qed

lemma hdlc_frames_queue_phase [simp]:
  "hdlc_frames (events (queue_phase s p)) = hdlc_frames (events s)"
  by (simp add: queue_phase_def)

lemmas set_phase_fields [simp] = session_core_fields[OF session_core_set_phase]
lemmas queue_phase_fields [simp] = session_core_fields[OF session_core_queue_phase]

section \<open>Proofs: the extension bits of a pruned capability frame\<close>











section \<open>Proofs: the octets of a PPS frame\<close>

lemma int_and_FF: "(x::int) AND 0xFF = x mod 256"
proof -
  have "x AND 0xFF = x AND mask 8" by (simp add: mask_eq_exp_minus_1)
  also have "\<dots> = take_bit 8 x" by (simp add: take_bit_eq_mask)
  also have "\<dots> = x mod 256" by (simp add: take_bit_eq_mod)
  finally show ?thesis .
qed

text \<open>
  C3 (as amended). \<^verbatim>\<open>send_pps_frame\<close> hands one frame of seven octets to the HDLC
  handler: 0xFF, 0x13, PPS with the DIS-received bit, then the next-tx step with the
  DIS-received bit when the buffer is at page end and NULL otherwise, the page number
  modulo 256, the block number modulo 256, and the frames-in-burst count minus one modulo
  256, where a count of zero gives the octet 0.
\<close>

theorem send_pps_frame_octets:
  assumes "send_hdlc_handler s"
  shows "events (fst (send_pps_frame K s)) = events s @ [Send_hdlc (pps_frame K s)]
     \<and> length (pps_frame K s) = 7
     \<and> pps_frame K s ! 0 = 0xFF \<and> pps_frame K s ! 1 = 0x13
     \<and> pps_frame K s ! 2 = T30_PPS K OR dis_bit s
     \<and> pps_frame K s ! 3 = (if ecm_at_page_end s then next_tx_step s OR dis_bit s else T30_NULL K)
     \<and> uint (pps_frame K s ! 4) = ecm_page s mod 256
     \<and> uint (pps_frame K s ! 5) = ecm_block s mod 256
     \<and> uint (pps_frame K s ! 6) =
         (if ecm_frames_this_burst s = 0 then 0 else (ecm_frames_this_burst s - 1) mod 256)"
  using assms
  by (simp add: send_pps_frame_def send_frame_def pps_frame_def Let_def
      int_and_FF uint_word_of_int)

theorem send_pps_frame_octets_witness:
  "send_hdlc_handler pps_sender
   \<and> events (fst (send_pps_frame fcf_T30 pps_sender))
       = [Send_hdlc [0xFF, 0x13, 0xBF, 0x2F, 0x02, 0x01, 0x02]]"
proof -
  have h: "send_hdlc_handler pps_sender" by (simp add: pps_sender_def session0_def)
  have e: "events pps_sender = []" by (simp add: pps_sender_def session0_def)
  have f: "pps_frame fcf_T30 pps_sender = [0xFF, 0x13, 0xBF, 0x2F, 0x02, 0x01, 0x02]"
    by code_simp
  from send_pps_frame_octets[OF h, of fcf_T30] show ?thesis using h e f by simp
qed

text \<open>
  C3 as stated fails when no frame is in the burst: after a PPR that asks for no frame,
  the sender sends RCP and then a PPS whose last octet is 0x00, not 0xFF.
\<close>

theorem send_pps_frame_counterexample:
  "ecm_frames_this_burst (process_rx_ppr fcf_T30 pps_sender ppr_none 35) = 0
   \<and> frames_sent (fst (send_pps_frame fcf_T30 (process_rx_ppr fcf_T30 pps_sender ppr_none 35)))
       = [[0xFF, 0x03, 0x86], [0xFF, 0x13, 0xBF, 0x2F, 0x02, 0x01, 0x00]]"
  by code_simp

section \<open>Proofs: the response of the ECM receiver to a PPS\<close>








lemma set_state_eq: "set_state s st = s\<lparr>state := st, step := 0\<rparr>"
  by (simp add: set_state_def)

lemma fst_commit:
  "fst (t30_ecm_commit_partial_page T s)
     = s\<lparr>t4 := snd (commit_loop T (ecm_data s) (ecm_len s) (nat (ecm_frames s)) 0 (t4 s)),
         ecm_len := replicate 256 (- 1), ecm_frames := - 1\<rparr>"
  by (simp add: t30_ecm_commit_partial_page_def split: prod.splits)







lemma send_deferred_frames:
  "ecm_frames (send_deferred_pps_response K T s) = ecm_frames s
   \<or> (ecm_frames (send_deferred_pps_response K T s) = - 1
      \<and> ecm_len (send_deferred_pps_response K T s) = replicate 256 (- 1))"
  by (simp add: send_deferred_pps_response_def Let_def fst_commit set_state_eq
      send_simple_frame_def send_frame_def rx_start_page_def)

lemma send_dcn_fields:
  "ecm_frames (send_dcn K s) = ecm_frames s" "ecm_len (send_dcn K s) = ecm_len s"
  by (simp_all add: send_dcn_def set_state_eq send_simple_frame_def send_frame_def)

text \<open>
  C9. A PPS that finds the buffer cleared (\<^verbatim>\<open>ecm_frames < 0\<close>) stores \<^verbatim>\<open>msg[6] + 1\<close>
  as the frame count. A PPS that finds a count stored never reads its own count octet:
  the outcome is the same whatever that octet is, and the stored count is left as it was,
  unless this PPS is answered with MCF, which commits the block and clears the buffer.
\<close>

theorem process_rx_pps_frame_count:
  "(ecm_frames s < 0 \<and> 7 \<le> len \<longrightarrow>
      ecm_frames (fst (process_rx_pps K T s msg len)) = uint (msg ! 6) + 1
      \<or> (ecm_frames (fst (process_rx_pps K T s msg len)) = - 1
         \<and> ecm_len (fst (process_rx_pps K T s msg len)) = replicate 256 (- 1)))
   \<and> (0 \<le> ecm_frames s \<longrightarrow>
        process_rx_pps K T s (msg[6 := x]) len = process_rx_pps K T s msg len
        \<and> (ecm_frames (fst (process_rx_pps K T s msg len)) = ecm_frames s
           \<or> (ecm_frames (fst (process_rx_pps K T s msg len)) = - 1
              \<and> ecm_len (fst (process_rx_pps K T s msg len)) = replicate 256 (- 1))))"
proof (intro conjI impI)
  assume a: "ecm_frames s < 0 \<and> 7 \<le> len"
  obtain m fb fno where sc: "pps_scan (ecm_len s) (ecm_frame_map s) = (m, fb, fno)"
    by (cases "pps_scan (ecm_len s) (ecm_frame_map s)")
  define s3 where "s3 = s\<lparr>last_pps_fcf2 := (msg ! 3) AND 0xFE,
     ecm_frames := uint (msg ! 6) + 1, ecm_frame_map := m, ecm_first_bad_frame := fb\<rparr>"
  have f: "ecm_frames s3 = uint (msg ! 6) + 1" by (simp add: s3_def)
  from send_deferred_frames[of K T s3] a sc f
  show "ecm_frames (fst (process_rx_pps K T s msg len)) = uint (msg ! 6) + 1
      \<or> (ecm_frames (fst (process_rx_pps K T s msg len)) = - 1
         \<and> ecm_len (fst (process_rx_pps K T s msg len)) = replicate 256 (- 1))"
    by (auto simp: process_rx_pps_def Let_def s3_def set_state_eq send_simple_frame_def
        send_frame_def unexpected_final_frame_def send_dcn_fields)
next
  assume a: "0 \<le> ecm_frames s"
  have "msg[6 := x] ! 3 = msg ! 3" by simp
  with a show "process_rx_pps K T s (msg[6 := x]) len = process_rx_pps K T s msg len"
    by (simp add: process_rx_pps_def Let_def)
next
  assume a: "0 \<le> ecm_frames s"
  obtain m fb fno where sc: "pps_scan (ecm_len s) (ecm_frame_map s) = (m, fb, fno)"
    by (cases "pps_scan (ecm_len s) (ecm_frame_map s)")
  define s3 where "s3 = s\<lparr>last_pps_fcf2 := (msg ! 3) AND 0xFE,
     ecm_frame_map := m, ecm_first_bad_frame := fb\<rparr>"
  have f: "ecm_frames s3 = ecm_frames s" by (simp add: s3_def)
  from send_deferred_frames[of K T s3] a sc f
  show "ecm_frames (fst (process_rx_pps K T s msg len)) = ecm_frames s
      \<or> (ecm_frames (fst (process_rx_pps K T s msg len)) = - 1
         \<and> ecm_len (fst (process_rx_pps K T s msg len)) = replicate 256 (- 1))"
    by (auto simp: process_rx_pps_def Let_def s3_def set_state_eq send_simple_frame_def
        send_frame_def unexpected_final_frame_def send_dcn_fields)
qed

theorem process_rx_pps_frame_count_witness:
  "ecm_frames rx_E < 0 \<and> (7::int) \<le> 7
   \<and> ecm_frames (fst (process_rx_pps fcf_T30 t4_none rx_E pps_E 7)) = uint (pps_E ! 6) + 1
   \<and> 0 \<le> ecm_frames (rx_E\<lparr>ecm_frames := 101\<rparr>)
   \<and> process_rx_pps fcf_T30 t4_none (rx_E\<lparr>ecm_frames := 101\<rparr>) (pps_E[6 := 0]) 7
       = process_rx_pps fcf_T30 t4_none (rx_E\<lparr>ecm_frames := 101\<rparr>) pps_E 7
   \<and> ecm_frames (fst (process_rx_pps fcf_T30 t4_none (rx_E\<lparr>ecm_frames := 101\<rparr>) pps_E 7)) = 101"
proof -
  have a: "ecm_frames rx_E < 0" "0 \<le> ecm_frames (rx_E\<lparr>ecm_frames := 101\<rparr>)"
    by (simp_all add: rx_E_def)
  have n1: "ecm_len (fst (process_rx_pps fcf_T30 t4_none rx_E pps_E 7)) \<noteq> replicate 256 (- 1)"
    by code_simp
  have n2: "ecm_len (fst (process_rx_pps fcf_T30 t4_none (rx_E\<lparr>ecm_frames := 101\<rparr>) pps_E 7))
      \<noteq> replicate 256 (- 1)"
    by code_simp
  note t1 = process_rx_pps_frame_count[of rx_E 7 fcf_T30 t4_none pps_E 0]
  note t2 = process_rx_pps_frame_count[of "rx_E\<lparr>ecm_frames := 101\<rparr>" 7 fcf_T30 t4_none pps_E 0]
  from t1 a(1) n1
  have r1: "ecm_frames (fst (process_rx_pps fcf_T30 t4_none rx_E pps_E 7)) = uint (pps_E ! 6) + 1"
    by simp
  from t2 a(2) n2
  have r2: "process_rx_pps fcf_T30 t4_none (rx_E\<lparr>ecm_frames := 101\<rparr>) (pps_E[6 := 0]) 7
       = process_rx_pps fcf_T30 t4_none (rx_E\<lparr>ecm_frames := 101\<rparr>) pps_E 7"
    "ecm_frames (fst (process_rx_pps fcf_T30 t4_none (rx_E\<lparr>ecm_frames := 101\<rparr>) pps_E 7)) = 101"
    by simp_all
  from a r1 r2 show ?thesis by simp
qed

section \<open>Proofs: the slots of the ECM sender after a PPR\<close>

lemma fold_cond_update:
  "b + n \<le> length (lens::int list) \<Longrightarrow>
   length (fold (\<lambda>j l. if c j then l[b + j := v] else l) [0..<n] lens) = length lens
   \<and> (\<forall>k. fold (\<lambda>j l. if c j then l[b + j := v] else l) [0..<n] lens ! k
            = (if b \<le> k \<and> k < b + n \<and> c (k - b) then v else lens ! k))"
proof (induction n)
  case 0
  then show ?case by simp
next
  case (Suc n)
  then have ih: "length (fold (\<lambda>j l. if c j then l[b + j := v] else l) [0..<n] lens) = length lens"
    "\<forall>k. fold (\<lambda>j l. if c j then l[b + j := v] else l) [0..<n] lens ! k
            = (if b \<le> k \<and> k < b + n \<and> c (k - b) then v else lens ! k)"
    by simp_all
  have lt: "b + n < length lens" using Suc.prems by simp
  show ?case using ih lt
    by (auto simp: nth_list_update less_Suc_eq)
qed

lemma and_push_bit_1_eq_0: "(x::u8) AND push_bit j 1 = 0 \<longleftrightarrow> \<not> bit x j"
  by (simp add: push_bit_eq_mult and_exp_eq_0_iff_not_bit)

lemma ppr_octet_props:
  assumes "i * 8 + 8 \<le> length lens" and "ppr_octet msg i (lens, m) = (lens', m')"
  shows "length lens' = length lens"
    and "\<forall>k. lens' ! k = (if i * 8 \<le> k \<and> k < i * 8 + 8 \<and> \<not> bit (msg ! (i + 3)) (k - i * 8)
                           then - 1 else lens ! k)"
proof -
  have l: "lens' = (if msg ! (i + 3) = 0
       then fold (\<lambda>j l. if True then l[i * 8 + j := - 1] else l) [0..<8] lens
       else fold (\<lambda>j l. if \<not> bit (msg ! (i + 3)) j then l[i * 8 + j := - 1] else l) [0..<8] lens)"
    using assms(2)
    by (auto simp: ppr_octet_def push_bit_eq_mult and_exp_eq_0_iff_not_bit split: if_splits)
  note a = fold_cond_update[OF assms(1), of "\<lambda>_. True" "- 1"]
  note b = fold_cond_update[OF assms(1), of "\<lambda>j. \<not> bit (msg ! (i + 3)) j" "- 1"]
  show "length lens' = length lens" using a b by (simp add: l)
  show "\<forall>k. lens' ! k = (if i * 8 \<le> k \<and> k < i * 8 + 8 \<and> \<not> bit (msg ! (i + 3)) (k - i * 8)
                           then - 1 else lens ! k)"
  proof (cases "msg ! (i + 3) = 0")
    case True
    then show ?thesis using a by (simp add: l)
  next
    case False
    then show ?thesis using b by (simp add: l)
  qed
qed

lemma ppr_fold_props:
  assumes "length lens = 256" and "n \<le> 32"
    and "fold (ppr_octet msg) [0..<n] (lens, m) = (lens', m')"
  shows "length lens' = 256
    \<and> (\<forall>k<256. lens' ! k = (if k < 8 * n \<and> \<not> bit (msg ! (3 + k div 8)) (k mod 8)
                              then - 1 else lens ! k))"
  using assms(2,3)
proof (induction n arbitrary: lens' m')
  case 0
  then show ?case using assms(1) by simp
next
  case (Suc n)
  obtain l1 m1 where r: "fold (ppr_octet msg) [0..<n] (lens, m) = (l1, m1)"
    by (cases "fold (ppr_octet msg) [0..<n] (lens, m)")
  have "n \<le> 32" using Suc.prems by simp
  from Suc.IH[OF this r]
  have ih: "length l1 = 256"
    "\<forall>k<256. l1 ! k = (if k < 8 * n \<and> \<not> bit (msg ! (3 + k div 8)) (k mod 8)
                        then - 1 else lens ! k)"
    by simp_all
  have e: "ppr_octet msg n (l1, m1) = (lens', m')" using Suc.prems(2) r by simp
  have le: "n * 8 + 8 \<le> length l1" using Suc.prems(1) ih(1) by simp
  note st = ppr_octet_props[OF le e]
  have "lens' ! k = (if k < 8 * Suc n \<and> \<not> bit (msg ! (3 + k div 8)) (k mod 8)
                     then - 1 else lens ! k)" if "k < 256" for k
  proof (cases "n * 8 \<le> k \<and> k < n * 8 + 8")
    case True
    then have d: "k div 8 = n" by auto
    have "k mod 8 = k - n * 8" using True d by (metis add.commute add_diff_cancel_left' mult.commute mult_div_mod_eq)
    with st(2) True d ih(2) that show ?thesis by (auto simp: add.commute)
  next
    case False
    then have "lens' ! k = l1 ! k" using st(2) by auto
    moreover have "k < 8 * Suc n \<longleftrightarrow> k < 8 * n" using False by auto
    ultimately show ?thesis using ih(2) that by simp
  qed
  then show ?case using st(1) ih(1) by simp
qed

lemma ecm_len_send_next_ecm_frame [simp]:
  "ecm_len (fst (send_next_ecm_frame K s)) = ecm_len s"
  by (simp add: send_next_ecm_frame_def send_frame_def Let_def split: option.splits)

lemma ecm_len_send_first_ecm_frame [simp]:
  "ecm_len (fst (send_first_ecm_frame K s)) = ecm_len s"
  by (simp add: send_first_ecm_frame_def)

lemma process_rx_ppr_ecm_len:
  assumes "ppr_count s + 1 < 4" and "len = 3 + 32"
  shows "ecm_len (process_rx_ppr K s msg len)
      = fst (fold (ppr_octet msg) [0..<32] (ecm_len s, ecm_frame_map s))"
  using assms
  by (simp add: process_rx_ppr_def Let_def set_state_eq split: prod.splits)

lemma process_rx_ppr_slot:
  assumes "ppr_count s + 1 < 4" and "len = 3 + 32" and "length (ecm_len s) = 256"
    and "k < 256"
  shows "ecm_len (process_rx_ppr K s msg len) ! k
           = (if bit (msg ! (3 + k div 8)) (k mod 8) then ecm_len s ! k else - 1)"
proof -
  obtain lens m where f: "fold (ppr_octet msg) [0..<32] (ecm_len s, ecm_frame_map s) = (lens, m)"
    by (cases "fold (ppr_octet msg) [0..<32] (ecm_len s, ecm_frame_map s)")
  from ppr_fold_props[OF assms(3) _ f]
  have p: "\<forall>k<256. lens ! k = (if \<not> bit (msg ! (3 + k div 8)) (k mod 8) then - 1 else ecm_len s ! k)"
    by auto
  have e: "ecm_len (process_rx_ppr K s msg len) = lens"
    using process_rx_ppr_ecm_len[OF assms(1,2), of K msg] f by simp
  show ?thesis using p assms(4) by (simp add: e)
qed

text \<open>
  C2 (as amended). A PPR of 35 octets that is not the fourth in a row leaves slot \<open>k\<close>
  as it was when bit \<open>k\<close> of the map is set, and sets its length to -1 when the bit is
  clear. So the slots that still hold a frame afterwards are the slots that held one
  before and whose bit is set: a set bit does not fill a slot that was empty.
\<close>

theorem process_rx_ppr_slots:
  assumes "ppr_count s + 1 < 4" and "len = 3 + 32" and "length (ecm_len s) = 256"
  shows "(\<forall>k<256. ecm_len (process_rx_ppr K s msg len) ! k
                    = (if bit (msg ! (3 + k div 8)) (k mod 8) then ecm_len s ! k else - 1))
     \<and> {k. k < 256 \<and> ecm_len (process_rx_ppr K s msg len) ! k \<noteq> - 1}
         = {k. k < 256 \<and> bit (msg ! (3 + k div 8)) (k mod 8) \<and> ecm_len s ! k \<noteq> - 1}"
proof -
  have a: "\<forall>k<256. ecm_len (process_rx_ppr K s msg len) ! k
                    = (if bit (msg ! (3 + k div 8)) (k mod 8) then ecm_len s ! k else - 1)"
    using process_rx_ppr_slot[OF assms] by blast
  have "k < 256 \<and> ecm_len (process_rx_ppr K s msg len) ! k \<noteq> - 1
      \<longleftrightarrow> k < 256 \<and> bit (msg ! (3 + k div 8)) (k mod 8) \<and> ecm_len s ! k \<noteq> - 1" for k
    using a by (cases "k < 256") simp_all
  then have "{k. k < 256 \<and> ecm_len (process_rx_ppr K s msg len) ! k \<noteq> - 1}
         = {k. k < 256 \<and> bit (msg ! (3 + k div 8)) (k mod 8) \<and> ecm_len s ! k \<noteq> - 1}"
    by (rule Collect_cong)
  with a show ?thesis by (rule conjI)
qed

theorem process_rx_ppr_slots_witness:
  "ppr_count tx_E + 1 < 4 \<and> (35::int) = 3 + 32 \<and> length (ecm_len tx_E) = 256
   \<and> ecm_len (process_rx_ppr fcf_T30 tx_E ppr_E 35) ! 99 = - 1
   \<and> ecm_len (process_rx_ppr fcf_T30 tx_E ppr_E 35) ! 100 = 260"
proof -
  have h: "ppr_count tx_E + 1 < 4" "(35::int) = 3 + 32" "length (ecm_len tx_E) = 256"
    by (simp_all add: tx_E_def session0_def)
  have b1: "bit (ppr_E ! (3 + 99 div 8)) (99 mod 8) = False" by code_simp
  have b2: "bit (ppr_E ! (3 + 100 div 8)) (100 mod 8) = True" by code_simp
  have l: "ecm_len tx_E ! 100 = 260" by (simp add: tx_E_def session0_def nth_append)
  from process_rx_ppr_slots[OF h, of fcf_T30 ppr_E]
  have a: "\<forall>k<256. ecm_len (process_rx_ppr fcf_T30 tx_E ppr_E 35) ! k
                    = (if bit (ppr_E ! (3 + k div 8)) (k mod 8) then ecm_len tx_E ! k else - 1)"
    by (rule conjunct1)
  have n: "(99::nat) < 256" "(100::nat) < 256" by simp_all
  have r1: "ecm_len (process_rx_ppr fcf_T30 tx_E ppr_E 35) ! 99 = - 1"
    by (rule trans[OF a[rule_format, OF n(1)]]) (simp only: b1 if_False)
  have r2: "ecm_len (process_rx_ppr fcf_T30 tx_E ppr_E 35) ! 100 = 260"
    by (rule trans[OF a[rule_format, OF n(2)]]) (simp only: b2 l if_True)
  from h r1 r2 show ?thesis by (intro conjI)
qed

text \<open>
  C2 as stated fails in scenario E: bit 101 of the PPR is set, and slot 101 of the sender,
  which was empty, stays empty.
\<close>

theorem process_rx_ppr_counterexample:
  "bit (ppr_E ! (3 + 101 div 8)) (101 mod 8)
   \<and> ecm_len (process_rx_ppr fcf_T30 tx_E ppr_E 35) ! 101 = - 1"
proof -
  have h: "ppr_count tx_E + 1 < 4" "(35::int) = 3 + 32" "length (ecm_len tx_E) = 256"
    "(101::nat) < 256"
    by (simp_all add: tx_E_def session0_def)
  have b: "bit (ppr_E ! (3 + 101 div 8)) (101 mod 8) = True" by code_simp
  have l: "ecm_len tx_E ! 101 = - 1" by (simp add: tx_E_def session0_def nth_append)
  have "ecm_len (process_rx_ppr fcf_T30 tx_E ppr_E 35) ! 101 = - 1"
    by (rule trans[OF process_rx_ppr_slot[OF h, of fcf_T30 ppr_E]]) (simp only: b l if_True)
  with b show ?thesis by (simp only: simp_thms)
qed


section \<open>Proofs: the training check of the answerer\<close>











section \<open>Proofs: the header check of a received frame\<close>

text \<open>
  C10. A frame of \<open>len\<close> octets with a good FCS goes to \<^verbatim>\<open>hdlc_accept_control_msg\<close>, and
  so to a handler, when it has at least 3 octets, begins with 0xFF and has 0x03 or 0x13 as
  its second octet. Any other frame is dropped whatever the handlers are: the session is
  left as it was but for the T2/T4 timer, which is cancelled before the checks; nothing is
  sent and neither the state nor the phase changes.
\<close>

theorem t30_hdlc_accept_header_check:
  fixes K :: t30_fcf and P :: putbit and H :: "'t4 t30_handlers" and s :: "'t4 t30_state"
  assumes "ok" and "len = int (length msg)"
  defines "s' \<equiv> t30_hdlc_accept K P H s msg len ok"
  defines "good \<equiv> 3 \<le> len \<and> msg ! 0 = 0xFF \<and> (msg ! 1 = 0x03 \<or> msg ! 1 = 0x13)"
  shows "(good \<longrightarrow> s' = hdlc_accept_control_msg H (s\<lparr>timer_t2_t4 := 0\<rparr>) msg len)
       \<and> (\<not> good \<longrightarrow> s' = s\<lparr>timer_t2_t4 := 0\<rparr> \<and> events s' = events s
              \<and> state s' = state s \<and> phase s' = phase s \<and> timer_t2_t4 s' = 0)"
  using assms(1,2) unfolding s'_def good_def
  by (auto simp add: t30_hdlc_accept_def Let_def)

theorem t30_hdlc_accept_header_check_witness:
  "(3::int) = int (length [0xFF, 0x23, 0x80 :: u8])
   \<and> \<not> (3 \<le> (3::int) \<and> [0xFF, 0x23, 0x80 :: u8] ! 0 = 0xFF
          \<and> ([0xFF, 0x23, 0x80 :: u8] ! 1 = 0x03 \<or> [0xFF, 0x23, 0x80 :: u8] ! 1 = 0x13))
   \<and> t30_hdlc_accept fcf_T30 putbit_std handlers_none (session0\<lparr>timer_t2_t4 := 24000\<rparr>)
        [0xFF, 0x23, 0x80] 3 True = session0"
  using t30_hdlc_accept_header_check[where ok = True and len = 3 and msg = "[0xFF, 0x23, 0x80]"
      and K = fcf_T30 and P = putbit_std and H = handlers_none
      and s = "session0\<lparr>timer_t2_t4 := 24000\<rparr>"]
  by (simp add: session0_def)

section \<open>Proofs: the retries on timer T4\<close>

lemma front_end_send_complete_fields:
  "state (front_end_send_complete_post_msg s) = state s"
  "retries (front_end_send_complete_post_msg s) = retries s"
  "next_tx_step (front_end_send_complete_post_msg s) = next_tx_step s"
  "dis_received (front_end_send_complete_post_msg s) = dis_received s"
  "current_status (front_end_send_complete_post_msg s) = current_status s"
  "send_hdlc_handler (front_end_send_complete_post_msg s) = send_hdlc_handler s"
  "frames_sent (front_end_send_complete_post_msg s) = frames_sent s"
  by (simp_all add: front_end_send_complete_post_msg_def frames_sent_def hdlc_frames_append)

lemma front_end_send_complete_pow:
  "state ((front_end_send_complete_post_msg ^^ n) s) = state s
   \<and> retries ((front_end_send_complete_post_msg ^^ n) s) = retries s
   \<and> next_tx_step ((front_end_send_complete_post_msg ^^ n) s) = next_tx_step s
   \<and> dis_received ((front_end_send_complete_post_msg ^^ n) s) = dis_received s
   \<and> current_status ((front_end_send_complete_post_msg ^^ n) s) = current_status s
   \<and> send_hdlc_handler ((front_end_send_complete_post_msg ^^ n) s) = send_hdlc_handler s
   \<and> frames_sent ((front_end_send_complete_post_msg ^^ n) s) = frames_sent s"
  by (induction n) (simp_all add: front_end_send_complete_fields)

lemma timer_t4_expired_ii_q_retry:
  assumes "state s = T30_STATE_II_Q" and "send_hdlc_handler s"
    and "retries s + 1 \<le> MAX_MESSAGE_TRIES"
  shows "state (timer_t4_expired K s) = T30_STATE_II_Q"
    "retries (timer_t4_expired K s) = retries s + 1"
    "next_tx_step (timer_t4_expired K s) = next_tx_step s"
    "dis_received (timer_t4_expired K s) = dis_received s"
    "current_status (timer_t4_expired K s) = current_status s"
    "send_hdlc_handler (timer_t4_expired K s)"
    "frames_sent (timer_t4_expired K s)
       = frames_sent s @ [[0xFF, 0x13, next_tx_step s OR dis_bit s]]"
  using assms
  by (simp_all add: timer_t4_expired_def Let_def repeat_last_command_def send_simple_frame_def
      send_frame_def frames_sent_def hdlc_frames_append dis_bit_def)

lemma timer_t4_expired_ii_q_exhausted:
  assumes "state s = T30_STATE_II_Q" and "send_hdlc_handler s"
    and "MAX_MESSAGE_TRIES < retries s + 1"
  shows "state (timer_t4_expired K s) = T30_STATE_C"
    "current_status (timer_t4_expired K s) = T30_ERR_PHDDEADTX"
    "frames_sent (timer_t4_expired K s)
       = frames_sent s @ [[0xFF, 0x13, T30_DCN K OR dis_bit s]]"
  using assms
  by (simp_all add: timer_t4_expired_def Let_def send_dcn_def set_state_eq send_simple_frame_def
      send_frame_def frames_sent_def hdlc_frames_append dis_bit_def)

lemma t4_retry_cycle_ii_q:
  assumes "state s = T30_STATE_II_Q" and "send_hdlc_handler s"
    and "retries s + 1 \<le> MAX_MESSAGE_TRIES"
  shows "state (t4_retry_cycle K n s) = T30_STATE_II_Q"
    "retries (t4_retry_cycle K n s) = retries s + 1"
    "next_tx_step (t4_retry_cycle K n s) = next_tx_step s"
    "dis_received (t4_retry_cycle K n s) = dis_received s"
    "current_status (t4_retry_cycle K n s) = current_status s"
    "send_hdlc_handler (t4_retry_cycle K n s)"
    "frames_sent (t4_retry_cycle K n s)
       = frames_sent s @ [[0xFF, 0x13, next_tx_step s OR dis_bit s]]"
  unfolding t4_retry_cycle_def
  by (simp_all add: front_end_send_complete_pow timer_t4_expired_ii_q_retry[OF assms])

lemma three_retry_cycles_ii_q:
  fixes K :: t30_fcf and s :: "'t4 t30_state" and n1 n2 n3 :: nat
  assumes st: "state s = T30_STATE_II_Q" and h: "send_hdlc_handler s" and r: "retries s = 0"
  defines "s3 \<equiv> t4_retry_cycle K n3 (t4_retry_cycle K n2 (t4_retry_cycle K n1 s))"
  shows "state s3 = T30_STATE_II_Q" "send_hdlc_handler s3" "retries s3 = 3"
    "current_status s3 = current_status s" "dis_received s3 = dis_received s"
    "frames_sent s3 = frames_sent s @ replicate 3 [0xFF, 0x13, next_tx_step s OR dis_bit s]"
proof -
  define s1 where "s1 = t4_retry_cycle K n1 s"
  define s2 where "s2 = t4_retry_cycle K n2 s1"
  have s3: "s3 = t4_retry_cycle K n3 s2" by (simp add: s3_def s2_def s1_def)
  have r0: "retries s + 1 \<le> MAX_MESSAGE_TRIES" by (simp add: r MAX_MESSAGE_TRIES_def)
  note c1 = t4_retry_cycle_ii_q[OF st h r0, of K n1, folded s1_def]
  have r1: "retries s1 + 1 \<le> MAX_MESSAGE_TRIES" by (simp add: c1(2) r MAX_MESSAGE_TRIES_def)
  note c2 = t4_retry_cycle_ii_q[OF c1(1) c1(6) r1, of K n2, folded s2_def]
  have r2: "retries s2 + 1 \<le> MAX_MESSAGE_TRIES"
    by (simp add: c2(2) c1(2) r MAX_MESSAGE_TRIES_def)
  note c3 = t4_retry_cycle_ii_q[OF c2(1) c2(6) r2, of K n3, folded s3]
  have d: "dis_bit s1 = dis_bit s" "dis_bit s2 = dis_bit s"
    by (simp_all add: dis_bit_def c1(4) c2(4))
  show "state s3 = T30_STATE_II_Q" by (rule c3(1))
  show "send_hdlc_handler s3" by (rule c3(6))
  show "retries s3 = 3" by (simp add: c3(2) c2(2) c1(2) r)
  show "current_status s3 = current_status s" by (simp add: c3(5) c2(5) c1(5))
  show "dis_received s3 = dis_received s" by (simp add: c3(4) c2(4) c1(4))
  show "frames_sent s3 = frames_sent s @ replicate 3 [0xFF, 0x13, next_tx_step s OR dis_bit s]"
    by (simp add: c3(7) c2(7) c1(7) c2(3) c1(3) d numeral_3_eq_3)
qed

lemma tx_ii_q_fields:
  "state tx_ii_q = T30_STATE_II_Q" "send_hdlc_handler tx_ii_q" "retries tx_ii_q = 0"
  "current_status tx_ii_q = T30_ERR_OK" "next_tx_step tx_ii_q = 0x2E" "dis_bit tx_ii_q = 0"
  "frames_sent tx_ii_q = []"
  by (simp_all add: tx_ii_q_def session0_def dis_bit_def frames_sent_def)

lemma fcf_T30_fields:
  "T30_DCN fcf_T30 = 0xFA" "T30_MCF fcf_T30 = 0x8C" "T30_RTP fcf_T30 = 0xCC"
  "T30_RTN fcf_T30 = 0x4C" "T30_FTT fcf_T30 = 0x44" "T30_CFR fcf_T30 = 0x84"
  "T30_RNR fcf_T30 = 0xEC" "T30_RR fcf_T30 = 0x6E" "T30_PPS fcf_T30 = 0xBE"
  "T30_NULL fcf_T30 = 0x00"
  by (simp_all add: fcf_T30_def)

text \<open>
  C6 (as amended). The sender is in state II_Q with the retry count at zero. On each of
  the first three expiries of T4 it sends the post-page command again and stays in II_Q,
  with the status unchanged; on the fourth expiry it sends DCN, sets the status to
  PHDDEADTX and enters state C. The front end may report completion any number of times
  after each expiry.
\<close>

theorem timer_t4_exhaustion_ii_q:
  fixes K :: t30_fcf and s :: "'t4 t30_state" and n1 n2 n3 :: nat
  assumes st: "state s = T30_STATE_II_Q" and h: "send_hdlc_handler s" and r: "retries s = 0"
  defines "s3 \<equiv> t4_retry_cycle K n3 (t4_retry_cycle K n2 (t4_retry_cycle K n1 s))"
  shows "state s3 = T30_STATE_II_Q \<and> current_status s3 = current_status s
       \<and> frames_sent s3 = frames_sent s @ replicate 3 [0xFF, 0x13, next_tx_step s OR dis_bit s]
       \<and> state (timer_t4_expired K s3) = T30_STATE_C
       \<and> current_status (timer_t4_expired K s3) = T30_ERR_PHDDEADTX
       \<and> frames_sent (timer_t4_expired K s3)
           = frames_sent s3 @ [[0xFF, 0x13, T30_DCN K OR dis_bit s]]"
proof -
  note c = three_retry_cycles_ii_q[OF st h r, where K = K and ?n1.0 = n1 and ?n2.0 = n2
      and ?n3.0 = n3, folded s3_def]
  have x: "MAX_MESSAGE_TRIES < retries s3 + 1" by (simp add: c(3) MAX_MESSAGE_TRIES_def)
  note e = timer_t4_expired_ii_q_exhausted[OF c(1) c(2) x, of K]
  have d: "dis_bit s3 = dis_bit s" by (simp add: dis_bit_def c(5))
  show ?thesis using c(1,4,6) e by (simp add: d)
qed

theorem timer_t4_exhaustion_ii_q_witness:
  "state tx_ii_q = T30_STATE_II_Q \<and> send_hdlc_handler tx_ii_q \<and> retries tx_ii_q = 0
   \<and> state (timer_t4_expired fcf_T30 tx_ii_q_3) = T30_STATE_C
   \<and> current_status (timer_t4_expired fcf_T30 tx_ii_q_3) = T30_ERR_PHDDEADTX
   \<and> frames_sent (timer_t4_expired fcf_T30 tx_ii_q_3)
       = [[0xFF, 0x13, 0x2E], [0xFF, 0x13, 0x2E], [0xFF, 0x13, 0x2E], [0xFF, 0x13, 0xFA]]"
  using timer_t4_exhaustion_ii_q[where s = tx_ii_q and K = fcf_T30 and ?n1.0 = 2 and ?n2.0 = 2
      and ?n3.0 = 2, folded tx_ii_q_3_def]
  by (simp add: tx_ii_q_fields fcf_T30_fields numeral_3_eq_3)

text \<open>
  C6 as stated fails: after three expiries of T4 in a row the sender is still in II_Q, the
  status is still OK, and the three frames sent are EOP, not DCN.
\<close>

theorem timer_t4_expired_counterexample:
  "state tx_ii_q = T30_STATE_II_Q \<and> retries tx_ii_q = 0
   \<and> state tx_ii_q_3 = T30_STATE_II_Q \<and> current_status tx_ii_q_3 = T30_ERR_OK
   \<and> frames_sent tx_ii_q_3 = [[0xFF, 0x13, 0x2E], [0xFF, 0x13, 0x2E], [0xFF, 0x13, 0x2E]]"
  using three_retry_cycles_ii_q[where s = tx_ii_q and K = fcf_T30 and ?n1.0 = 2 and ?n2.0 = 2
      and ?n3.0 = 2, folded tx_ii_q_3_def]
  by (simp add: tx_ii_q_fields numeral_3_eq_3)

section \<open>Proofs: what \<^verbatim>\<open>repeat_last_command\<close> sends\<close>

lemma dis_bit_set_phase [simp]: "dis_bit (set_phase s p) = dis_bit s"
  by (simp add: dis_bit_def)

lemma pps_frame_set_phase [simp]: "pps_frame K (set_phase s p) = pps_frame K s"
  by (simp add: pps_frame_def)









text \<open>
  In the two states that await the answer to RR, \<^verbatim>\<open>repeat_last_command\<close> sends RNR, which
  is not the frame of the entry.
\<close>

lemma repeat_last_command_rnr:
  assumes "send_hdlc_handler s"
    and "state s = T30_STATE_IV_PPS_RNR \<or> state s = T30_STATE_IV_EOR_RNR"
  shows "hdlc_frames (events (repeat_last_command K s))
           = hdlc_frames (events s) @ [[0xFF, 0x13, T30_RNR K OR dis_bit s]]"
    and "entry_frame K s = [0xFF, 0x13, T30_RR K OR dis_bit s]"
  using assms
  by (auto simp add: repeat_last_command_def entry_frame_def send_simple_frame_def
      send_frame_def hdlc_frames_append)





section \<open>Proofs: the decision of the Bell MF receiver at the end of a block\<close>

lemma relative_peak_loop_iff:
  "relative_peak_loop P energy b sb js \<longleftrightarrow>
     (\<forall>i\<in>set js. i \<noteq> b \<and> i \<noteq> sb \<longrightarrow> BELL_MF_RELATIVE_PEAK P (energy ! i) < energy ! sb)"
  by (induction js) (auto simp: not_le)

lemma bell_mf_hit_iff:
  "bell_mf_hit P energy \<longleftrightarrow>
     (case bell_mf_best energy of
        (best, second_best) \<Rightarrow>
          energy ! best \<ge> BELL_MF_THRESHOLD P
          \<and> energy ! second_best \<ge> BELL_MF_THRESHOLD P
          \<and> energy ! best < BELL_MF_TWIST P (energy ! second_best)
          \<and> BELL_MF_TWIST P (energy ! best) > energy ! second_best
          \<and> (\<forall>i<6. i \<noteq> best \<and> i \<noteq> second_best \<longrightarrow>
                 BELL_MF_RELATIVE_PEAK P (energy ! i) < energy ! second_best))"
  by (auto simp add: bell_mf_hit_def relative_peak_loop_iff split: prod.splits)

lemma bell_mf_hits_shift:
  "hits (bell_mf_block_end P s energy)
     = [hits s ! 1, hits s ! 2, hits s ! 3, hits s ! 4, bell_mf_block_result P energy]"
  by (simp add: bell_mf_block_end_def Let_def)

lemma bell_mf_hits_five:
  "hits (bell_mf_blocks P s [e1, e2, e3, e4, e5])
     = map (bell_mf_block_result P) [e1, e2, e3, e4, e5]"
  by (simp add: bell_mf_blocks_def bell_mf_hits_shift)

lemma bell_mf_block_end_digit:
  fixes P :: "('e::linorder) bell_mf_params" and energy :: "'e list" and s :: bell_mf_rx_state
  defines "hit \<equiv> bell_mf_block_result P energy"
  defines "s' \<equiv> bell_mf_block_end P s energy"
  shows "(digits s' \<noteq> digits s \<or> current_digits s' \<noteq> current_digits s
            \<or> delivered s' \<noteq> delivered s
          \<longrightarrow> bell_mf_hit P energy \<and> bell_mf_history_test (hits s) hit)"
    and "bell_mf_hit P energy \<and> bell_mf_history_test (hits s) hit
           \<and> current_digits s < MAX_BELL_MF_DIGITS P
          \<longrightarrow> digits s' = take (nat (current_digits s)) (digits s) @ [hit]
              \<and> (if callback s then delivered s' = delivered s @ [digits s']
                    \<and> current_digits s' = 0
                  else delivered s' = delivered s
                    \<and> current_digits s' = current_digits s + 1)"
  unfolding hit_def s'_def
  by (auto simp add: bell_mf_block_end_def Let_def)

lemma all_less_6:
  "(\<forall>i<6. Q (i::nat)) \<longleftrightarrow> Q 0 \<and> Q 1 \<and> Q 2 \<and> Q 3 \<and> Q 4 \<and> Q 5"
proof -
  have "i < 6 \<longleftrightarrow> i = 0 \<or> i = 1 \<or> i = 2 \<or> i = 3 \<or> i = 4 \<or> i = 5" for i :: nat
    by auto
  then show ?thesis by auto
qed

lemma upt_2_6: "[2..<6] = [2, 3, 4, 5::nat]"
  by (simp add: upt_conv_Cons)

lemma bell_mf_best_step:
  fixes energy :: "('e::linorder) list"
  assumes "b < n" "sb < n" "b \<noteq> sb" "energy ! sb \<le> energy ! b"
    "\<forall>i<n. i \<noteq> b \<longrightarrow> energy ! i \<le> energy ! sb"
  defines "r \<equiv> (if energy ! n \<ge> energy ! b then (n, b)
                 else if energy ! n \<ge> energy ! sb then (b, n) else (b, sb))"
  shows "fst r < Suc n \<and> snd r < Suc n \<and> fst r \<noteq> snd r
       \<and> energy ! snd r \<le> energy ! fst r
       \<and> (\<forall>i<Suc n. i \<noteq> fst r \<longrightarrow> energy ! i \<le> energy ! snd r)"
  using assms(1-5) unfolding r_def
  by (auto simp: less_Suc_eq)

lemma bell_mf_best_ok_step:
  fixes energy :: "('e::linorder) list"
  assumes "bell_mf_best_ok energy n p"
  shows "bell_mf_best_ok energy (Suc n)
           ((\<lambda>i (best, second_best).
                if energy ! i \<ge> energy ! best then (i, best)
                else if energy ! i \<ge> energy ! second_best then (best, i)
                else (best, second_best)) n p)"
proof -
  obtain b sb where p: "p = (b, sb)" by (cases p)
  from assms have a: "b < n" "sb < n" "b \<noteq> sb" "energy ! sb \<le> energy ! b"
    "\<forall>i<n. i \<noteq> b \<longrightarrow> energy ! i \<le> energy ! sb"
    by (simp_all add: bell_mf_best_ok_def p)
  from bell_mf_best_step[OF a] show ?thesis
    by (simp add: bell_mf_best_ok_def p)
qed

lemma bell_mf_best_ok_6:
  fixes energy :: "('e::linorder) list"
  shows "bell_mf_best_ok energy 6 (bell_mf_best energy)"
proof -
  let ?F = "\<lambda>i (best, second_best).
                if energy ! i \<ge> energy ! best then (i, best)
                else if energy ! i \<ge> energy ! second_best then (best, i)
                else (best, second_best)"
  let ?p0 = "if energy ! 0 > energy ! 1 then (0, 1) else (1, 0::nat)"
  have i2: "bell_mf_best_ok energy 2 ?p0"
    by (auto simp: bell_mf_best_ok_def less_Suc_eq numeral_2_eq_2)
  have e: "bell_mf_best energy = ?F 5 (?F 4 (?F 3 (?F 2 ?p0)))"
    unfolding bell_mf_best_def upt_2_6 by (simp only: fold_simps o_apply)
  have s: "Suc 2 = 3" "Suc 3 = 4" "Suc 4 = 5" "Suc 5 = 6" by simp_all
  note i3 = bell_mf_best_ok_step[OF i2, unfolded s]
  note i4 = bell_mf_best_ok_step[OF i3, unfolded s]
  note i5 = bell_mf_best_ok_step[OF i4, unfolded s]
  note i6 = bell_mf_best_ok_step[OF i5, unfolded s]
  show ?thesis unfolding e by (rule i6)
qed

lemma bell_mf_kp_facts:
  "bell_mf_hit bell_mf_real energy_kp"
  "bell_mf_block_result bell_mf_real energy_kp = CHR ''*''"
  "\<not> bell_mf_hit bell_mf_real energy_silence"
  "bell_mf_block_result bell_mf_real energy_silence = CHR 0x00"
proof -
  have b: "bell_mf_best energy_kp = (5, 2)" "bell_mf_best energy_silence = (5, 4)"
    by (simp_all add: bell_mf_best_def upt_2_6 energy_kp_def energy_silence_def)
  show k: "bell_mf_hit bell_mf_real energy_kp"
    unfolding bell_mf_hit_iff b
    by (simp add: all_less_6 energy_kp_def bell_mf_real_def)
  show n: "\<not> bell_mf_hit bell_mf_real energy_silence"
    unfolding bell_mf_hit_iff b
    by (simp add: energy_silence_def bell_mf_real_def)
  show "bell_mf_block_result bell_mf_real energy_kp = CHR ''*''"
    unfolding bell_mf_block_result_def bell_mf_digit_def b
    by (simp add: k bell_mf_positions_def)
  show "bell_mf_block_result bell_mf_real energy_silence = CHR 0x00"
    by (simp add: bell_mf_block_result_def n)
qed

lemma bell_mf_kp_run_fields:
  "digits bell_mf_kp_run = []" "current_digits bell_mf_kp_run = 0"
  "delivered bell_mf_kp_run = []" "\<not> callback bell_mf_kp_run"
  by (simp_all add: bell_mf_kp_run_def bell_mf_blocks_def bell_mf_block_end_def Let_def
      bell_mf_kp_facts bell_mf_history_test_def bell_mf_rx_init_def)

lemma bell_mf_real_max: "MAX_BELL_MF_DIGITS bell_mf_real = 128"
  by (simp add: bell_mf_real_def)

text \<open>
  C8. At the end of a block the receiver has a hit exactly when the two highest energies
  are at least the threshold, each is less than the twist times the other, and the
  relative peak times the energy of every other bin is less than the second highest. With
  \<open>e1\<close>, ..., \<open>e5\<close> the five blocks before, oldest first, the stored digits change only on a
  hit whose digit is the result of \<open>e5\<close> and \<open>e4\<close> and is not the result of \<open>e3\<close> and
  \<open>e2\<close>, or for KP is the result of \<open>e5\<close>, \<open>e4\<close> and \<open>e3\<close> and not of \<open>e2\<close> and \<open>e1\<close>; and
  on such a hit the digit is appended, unless the buffer is full.
\<close>

theorem bell_mf_block_decision:
  fixes P :: "('e::linorder) bell_mf_params" and energy e1 e2 e3 e4 e5 :: "'e list"
    and s :: bell_mf_rx_state
  defines "r \<equiv> bell_mf_block_result P"
  defines "s5 \<equiv> bell_mf_blocks P s [e1, e2, e3, e4, e5]"
  defines "s' \<equiv> bell_mf_block_end P s5 energy"
  defines "history \<equiv> r energy = r e5 \<and> r energy = r e4
     \<and> (if r energy = CHR ''*'' then r energy = r e3 \<and> r energy \<noteq> r e2 \<and> r energy \<noteq> r e1
         else r energy \<noteq> r e3 \<and> r energy \<noteq> r e2)"
  shows "(bell_mf_hit P energy \<longleftrightarrow>
           (case bell_mf_best energy of
              (best, second_best) \<Rightarrow>
                energy ! best \<ge> BELL_MF_THRESHOLD P
                \<and> energy ! second_best \<ge> BELL_MF_THRESHOLD P
                \<and> energy ! best < BELL_MF_TWIST P (energy ! second_best)
                \<and> BELL_MF_TWIST P (energy ! best) > energy ! second_best
                \<and> (\<forall>i<6. i \<noteq> best \<and> i \<noteq> second_best \<longrightarrow>
                       BELL_MF_RELATIVE_PEAK P (energy ! i) < energy ! second_best)))
       \<and> bell_mf_best_ok energy 6 (bell_mf_best energy)
       \<and> (digits s' \<noteq> digits s5 \<or> current_digits s' \<noteq> current_digits s5
            \<or> delivered s' \<noteq> delivered s5
          \<longrightarrow> bell_mf_hit P energy \<and> history)
       \<and> (bell_mf_hit P energy \<and> history \<and> current_digits s5 < MAX_BELL_MF_DIGITS P
          \<longrightarrow> digits s' = take (nat (current_digits s5)) (digits s5) @ [r energy]
              \<and> (if callback s5 then delivered s' = delivered s5 @ [digits s']
                    \<and> current_digits s' = 0
                  else delivered s' = delivered s5
                    \<and> current_digits s' = current_digits s5 + 1))"
proof -
  have h: "bell_mf_history_test (hits s5) (r energy) \<longleftrightarrow> history"
    unfolding s5_def bell_mf_hits_five history_def bell_mf_history_test_def r_def
    by auto
  note d = bell_mf_block_end_digit[where P = P and s = s5 and energy = energy, folded s'_def r_def, unfolded h]
  from bell_mf_hit_iff[of P energy] bell_mf_best_ok_6[of energy] d(1) d(2)
  show ?thesis by (intro conjI)
qed

theorem bell_mf_block_decision_witness:
  "bell_mf_hit bell_mf_real energy_kp
   \<and> bell_mf_block_result bell_mf_real energy_kp = CHR ''*''
   \<and> bell_mf_block_result bell_mf_real energy_silence = CHR 0x00
   \<and> current_digits bell_mf_kp_run < MAX_BELL_MF_DIGITS bell_mf_real
   \<and> digits (bell_mf_block_end bell_mf_real bell_mf_kp_run energy_kp) = ''*''
   \<and> current_digits (bell_mf_block_end bell_mf_real bell_mf_kp_run energy_kp) = 1"
  using bell_mf_block_decision[where P = bell_mf_real and s = "bell_mf_rx_init False"
      and ?e1.0 = energy_silence and ?e2.0 = energy_silence and ?e3.0 = energy_kp
      and ?e4.0 = energy_kp and ?e5.0 = energy_kp and energy = energy_kp,
      folded bell_mf_kp_run_def]
  by (simp add: bell_mf_kp_facts bell_mf_kp_run_fields bell_mf_real_max)

end
